theory Spec2Isabelle
  imports Complex_Main "HOL-Library.Multiset"
begin

section \<open>Numbers\<close>

text \<open>
  The trading library computes on JavaScript numbers, the values of IEEE 754 binary64. A
  number is modelled as a real or one of the three special values. The operators \<open>+\<close>,
  \<open>-\<close>, \<open>*\<close> and \<open>/\<close> of the type give the exact result on reals and the IEEE 754
  result on the special values; an operation of JavaScript is the exact result rounded to
  binary64 (\<open>fadd\<close>, \<open>fsub\<close>, \<open>fmul\<close> and \<open>fdiv\<close> below). The sign of zero is left
  out (a zero divisor counts as \<open>+0\<close>).
\<close>

datatype number = Num real | Infinity | NegInfinity | NaN

fun sign :: "number \<Rightarrow> real" where
  "sign (Num a) = sgn a"
| "sign Infinity = 1"
| "sign NegInfinity = - 1"
| "sign NaN = 0"

fun lt :: "number \<Rightarrow> number \<Rightarrow> bool" where
  "lt NaN y = False"
| "lt x NaN = False"
| "lt (Num a) (Num b) = (a < b)"
| "lt x NegInfinity = False"
| "lt NegInfinity y = True"
| "lt Infinity y = False"
| "lt (Num a) Infinity = True"

instantiation number :: "{plus, minus, uminus, times, inverse, ord}"
begin

fun uminus_number :: "number \<Rightarrow> number" where
  "uminus_number (Num a) = Num (- a)"
| "uminus_number Infinity = NegInfinity"
| "uminus_number NegInfinity = Infinity"
| "uminus_number NaN = NaN"

fun plus_number :: "number \<Rightarrow> number \<Rightarrow> number" where
  "plus_number NaN y = NaN"
| "plus_number x NaN = NaN"
| "plus_number (Num a) (Num b) = Num (a + b)"
| "plus_number Infinity NegInfinity = NaN"
| "plus_number NegInfinity Infinity = NaN"
| "plus_number Infinity y = Infinity"
| "plus_number NegInfinity y = NegInfinity"
| "plus_number (Num a) y = y"

definition minus_number :: "number \<Rightarrow> number \<Rightarrow> number" where
  "minus_number x y = x + (- y)"

fun times_number :: "number \<Rightarrow> number \<Rightarrow> number" where
  "times_number NaN y = NaN"
| "times_number x NaN = NaN"
| "times_number (Num a) (Num b) = Num (a * b)"
| "times_number x y =
     (if 0 < sign x * sign y then Infinity
      else if sign x * sign y < 0 then NegInfinity else NaN)"

fun divide_number :: "number \<Rightarrow> number \<Rightarrow> number" where
  "divide_number NaN y = NaN"
| "divide_number x NaN = NaN"
| "divide_number (Num a) (Num b) =
     (if b \<noteq> 0 then Num (a / b)
      else if 0 < a then Infinity else if a < 0 then NegInfinity else NaN)"
| "divide_number (Num a) y = Num 0"
| "divide_number x (Num b) = (if 0 \<le> sign x * (if b < 0 then - 1 else 1) then Infinity else NegInfinity)"
| "divide_number x y = NaN"

definition inverse_number :: "number \<Rightarrow> number" where
  "inverse_number x = divide (Num 1) x"

definition less_number :: "number \<Rightarrow> number \<Rightarrow> bool" where
  "less_number x y = lt x y"

definition less_eq_number :: "number \<Rightarrow> number \<Rightarrow> bool" where
  "less_eq_number x y = (lt x y \<or> (x = y \<and> x \<noteq> NaN))"

instance ..

end

text \<open>The functions of \<open>Math\<close> that the library calls.\<close>

fun Math_abs :: "number \<Rightarrow> number" where
  "Math_abs (Num a) = Num \<bar>a\<bar>"
| "Math_abs NaN = NaN"
| "Math_abs x = Infinity"

fun Math_floor :: "number \<Rightarrow> number" where
  "Math_floor (Num a) = Num (of_int \<lfloor>a\<rfloor>)"
| "Math_floor x = x"

fun Math_ceil :: "number \<Rightarrow> number" where
  "Math_ceil (Num a) = Num (of_int \<lceil>a\<rceil>)"
| "Math_ceil x = x"

fun Math_round :: "number \<Rightarrow> number" where
  "Math_round (Num a) = Num (of_int \<lfloor>a + 1 / 2\<rfloor>)"
| "Math_round x = x"

fun Math_log10 :: "number \<Rightarrow> number" where
  "Math_log10 (Num a) =
     (if 0 < a then Num (log 10 a) else if a = 0 then NegInfinity else NaN)"
| "Math_log10 Infinity = Infinity"
| "Math_log10 x = NaN"

definition Math_max :: "number \<Rightarrow> number \<Rightarrow> number" where
  "Math_max x y = (if x = NaN \<or> y = NaN then NaN else if x < y then y else x)"

definition Math_min :: "number \<Rightarrow> number \<Rightarrow> number" where
  "Math_min x y = (if x = NaN \<or> y = NaN then NaN else if y < x then y else x)"

text \<open>
  Rounding to binary64. \<open>rne\<close> rounds a real to the nearest integer, a tie to the even
  one. \<open>exponent x\<close> is the binary exponent of \<open>x\<close>, held at \<open>-1022\<close> in the subnormal
  range, and \<open>ulp x\<close> is the distance between neighbouring binary64 values at \<open>x\<close> (the
  unit in the last place). \<open>binary64 x\<close> is the multiple of \<open>ulp x\<close> nearest to \<open>x\<close>, or
  an infinity when that multiple reaches \<open>2^1024\<close> in magnitude. A decimal literal of
  the source that is not a binary64 value, such as \<open>0.6\<close>, is \<open>binary64 (6 / 10)\<close>.
\<close>

definition rne :: "real \<Rightarrow> int" where
  "rne x = (let n = \<lfloor>x\<rfloor>; r = x - of_int n
            in if r < 1 / 2 then n else if 1 / 2 < r then n + 1
               else if even n then n else n + 1)"

definition exponent :: "real \<Rightarrow> int" where
  "exponent x = max \<lfloor>log 2 \<bar>x\<bar>\<rfloor> (- 1022)"

definition ulp :: "real \<Rightarrow> real" where
  "ulp x = 2 powi (exponent x - 52)"

definition binary64 :: "real \<Rightarrow> number" where
  "binary64 x =
     (if x = 0 then Num 0
      else let r = of_int (rne (x / ulp x)) * ulp x
           in if 2 ^ 1024 \<le> \<bar>r\<bar> then (if 0 < x then Infinity else NegInfinity)
              else Num r)"

text \<open>
  The four operations as JavaScript computes them. \<open>RiskPhysics.calculate_tp_sl\<close> and
  the functions of \<open>AlphaRanker\<close> are written with them, since rounding decides where
  their results fall. The other functions are written with the exact operators: what is
  shown of them below does not depend on rounding (it concerns control flow, or values at
  which the exact result and the rounded one lead to the same outcome).
\<close>

definition rnd :: "number \<Rightarrow> number" where
  "rnd x = (case x of Num r \<Rightarrow> binary64 r | _ \<Rightarrow> x)"

definition fadd :: "number \<Rightarrow> number \<Rightarrow> number" where
  "fadd x y = rnd (x + y)"

definition fsub :: "number \<Rightarrow> number \<Rightarrow> number" where
  "fsub x y = rnd (x - y)"

definition fmul :: "number \<Rightarrow> number \<Rightarrow> number" where
  "fmul x y = rnd (x * y)"

definition fdiv :: "number \<Rightarrow> number \<Rightarrow> number" where
  "fdiv x y = rnd (x / y)"

text \<open>Exceptions are values: \<open>Error\<close> with its message, and \<open>RangeError\<close>.\<close>

datatype error = Error string | RangeError

definition ToIntegerOrInfinity :: "number \<Rightarrow> number" where
  "ToIntegerOrInfinity x =
     (case x of
        NaN \<Rightarrow> Num 0
      | Num a \<Rightarrow> Num (of_int (if 0 \<le> a then \<lfloor>a\<rfloor> else \<lceil>a\<rceil>))
      | _ \<Rightarrow> x)"

text \<open>
  \<open>toFixed x fractionDigits\<close> is \<open>Number(x.toFixed(fractionDigits))\<close>: the decimal
  with that many digits closest to \<open>x\<close>, the larger one of two equally close (on the
  magnitude, the sign is put back in front), read back as a number. Non-finite values and
  magnitudes from \<open>10^21\<close> on are printed by \<open>ToString\<close> and read back unchanged.
\<close>

definition toFixed :: "number \<Rightarrow> number \<Rightarrow> error + number" where
  "toFixed x fractionDigits =
     (case ToIntegerOrInfinity fractionDigits of
        Num f \<Rightarrow>
          if f < 0 \<or> 100 < f then Inl RangeError
          else (case x of
                  Num a \<Rightarrow>
                    if 10 ^ 21 \<le> \<bar>a\<bar> then Inr x
                    else let m = 10 ^ nat \<lfloor>f\<rfloor>
                         in Inr (Num (if a < 0 then - (of_int \<lfloor>- a * m + 1 / 2\<rfloor> / m)
                                      else of_int \<lfloor>a * m + 1 / 2\<rfloor> / m))
                | _ \<Rightarrow> Inr x)
      | _ \<Rightarrow> Inl RangeError)"

section \<open>Market statistics (utils.ts)\<close>

record Candle =
  timestamp :: number
  "open" :: number
  high :: number
  low :: number
  close :: number
  volume :: number

text \<open>The first loop of \<open>calculate_atr\<close>: one true range per candle after the first.\<close>

fun true_ranges :: "Candle list \<Rightarrow> number list" where
  "true_ranges (previous # current # rest) =
     (let highLow = high current - low current;
          highPrevClose = Math_abs (high current - close previous);
          lowPrevClose = Math_abs (low current - close previous)
      in Math_max highLow (Math_max highPrevClose lowPrevClose))
     # true_ranges (current # rest)"
| "true_ranges candles = []"

definition calculate_atr :: "Candle list \<Rightarrow> nat \<Rightarrow> number" where
  "calculate_atr candles period =
     (if length candles < period + 1 then Num 0
      else let trueRanges = true_ranges candles
           in if length trueRanges < period then Num 0
              else let atr = foldl (\<lambda>acc tr. acc + tr) (Num 0) (take period trueRanges)
                               / Num (real period)
                   in foldl (\<lambda>atr tr. (atr * Num (real period - 1) + tr) / Num (real period))
                        atr (drop period trueRanges))"

datatype rounding_mode = Up | Down | Nearest

definition round_to_qty_step :: "number \<Rightarrow> number \<Rightarrow> rounding_mode \<Rightarrow> error + number" where
  "round_to_qty_step quantity qtyStep roundingMode =
     (if qtyStep \<le> Num 0 then Inl (Error ''Quantity step must be positive'')
      else let precision = Math_max (Num 0) (Math_ceil (- Math_log10 qtyStep));
               multiplier = Num 1 / qtyStep;
               rounded = (case roundingMode of
                            Up \<Rightarrow> Math_ceil (quantity * multiplier) / multiplier
                          | Down \<Rightarrow> Math_floor (quantity * multiplier) / multiplier
                          | Nearest \<Rightarrow> Math_round (quantity * multiplier) / multiplier)
           in toFixed rounded precision)"

section \<open>Risk Physics\<close>

datatype SignalDirection = LONG | SHORT

text \<open>
  A \<open>Signal\<close> with the fields the sizing and ranking functions read. An optional field
  is an \<open>option\<close>; \<open>x ?? d\<close> is \<open>nullish x d\<close>.
\<close>

record Signal =
  symbol :: string
  strategy :: string
  direction :: SignalDirection
  win_probability :: number
  expected_move_pct :: number
  entry_price :: "number option"
  current_price :: "number option"
  atr :: "number option"

definition nullish :: "'a option \<Rightarrow> 'a \<Rightarrow> 'a" where
  "nullish x d = (case x of Some v \<Rightarrow> v | None \<Rightarrow> d)"

record RiskPhysicsConfig =
  maxCapitalPerTrade :: number
  maxLeverage :: number
  minRiskReward :: number
  takerFee :: number
  defaultAtrMultiplierTp :: number
  defaultAtrMultiplierSl :: number

definition DEFAULT_RISK_PHYSICS_CONFIG :: RiskPhysicsConfig where
  "DEFAULT_RISK_PHYSICS_CONFIG =
     \<lparr>maxCapitalPerTrade = Num 15, maxLeverage = Num 10, minRiskReward = Num (3 / 2),
      takerFee = binary64 (55 / 100000), defaultAtrMultiplierTp = Num 2,
      defaultAtrMultiplierSl = Num (3 / 2)\<rparr>"

record RiskLevels =
  entryPrice :: number
  takeProfitPrice :: number
  stopLossPrice :: number
  breakEvenPrice :: number
  riskRewardRatio :: number
  atrMultiplier :: number

record PositionSizing =
  capital :: number
  positionSize :: number
  quantity :: number
  leverage :: number

definition calculate_break_even :: "RiskPhysicsConfig \<Rightarrow> number \<Rightarrow> SignalDirection \<Rightarrow> number" where
  "calculate_break_even config entry dir =
     (let totalFeePct = fmul (takerFee config) (Num 2)
      in if dir = LONG then fmul entry (fadd (Num 1) totalFeePct)
         else fmul entry (fsub (Num 1) totalFeePct))"

definition calculate_tp_sl ::
  "RiskPhysicsConfig \<Rightarrow> Signal \<Rightarrow> number option \<Rightarrow> number option \<Rightarrow> error + RiskLevels" where
  "calculate_tp_sl config signal customTpMultiplier customSlMultiplier =
     (let entryPrice = nullish (current_price signal) (nullish (entry_price signal) (Num 0));
          atr = nullish (atr signal) (Num 0)
      in if entryPrice = Num 0
         then Inl (Error ''Signal must have current_price or entry_price for TP/SL calculation'')
         else if atr = Num 0 then Inl (Error ''Signal must have atr for TP/SL calculation'')
         else
           let tpMultiplier = nullish customTpMultiplier (defaultAtrMultiplierTp config);
               slMultiplier = nullish customSlMultiplier (defaultAtrMultiplierSl config);
               tpDistance = fmul atr tpMultiplier;
               slDistance = fmul atr slMultiplier;
               takeProfitPrice = (if direction signal = LONG then fadd entryPrice tpDistance
                                  else fsub entryPrice tpDistance);
               stopLossPrice = (if direction signal = LONG then fsub entryPrice slDistance
                                else fadd entryPrice slDistance);
               breakEvenPrice = calculate_break_even config entryPrice (direction signal);
               riskRewardRatio = (if Num 0 < slDistance then fdiv tpDistance slDistance else Num 0)
           in Inr \<lparr>entryPrice = entryPrice, takeProfitPrice = takeProfitPrice,
                   stopLossPrice = stopLossPrice, breakEvenPrice = breakEvenPrice,
                   riskRewardRatio = riskRewardRatio, atrMultiplier = slMultiplier\<rparr>)"

text \<open>
  \<open>calculate_position_size\<close>; its \<open>tickSize\<close> parameter is not read by the body, and
  the unused local \<open>riskPct\<close> is left out.
\<close>

definition calculate_position_size ::
  "RiskPhysicsConfig \<Rightarrow> Signal \<Rightarrow> RiskLevels \<Rightarrow> number \<Rightarrow> number \<Rightarrow> error + PositionSizing" where
  "calculate_position_size config signal riskLevels tickSize qtyStep =
     (let maxCapital = maxCapitalPerTrade config;
          currentPrice = nullish (current_price signal) (nullish (entry_price signal) (Num 0))
      in if currentPrice = Num 0
         then Inl (Error ''Signal must have current_price or entry_price for position sizing'')
         else
           let riskDistance = Math_abs (currentPrice - stopLossPrice riskLevels);
               maxRiskPerTrade = maxCapital * Num (2 / 100);
               positionSize = maxRiskPerTrade / riskDistance;
               maxPositionByCapital = maxCapital / currentPrice;
               positionSize = Math_min positionSize maxPositionByCapital
           in case round_to_qty_step positionSize qtyStep Down of
                Inl e \<Rightarrow> Inl e
              | Inr q \<Rightarrow>
                  let quantity = q;
                      positionValue = quantity * currentPrice;
                      leverage = (if maxCapital < positionValue
                                  then Math_ceil (positionValue / maxCapital) else Num 1)
                  in Inr \<lparr>capital = maxCapital, positionSize = positionValue,
                          quantity = quantity,
                          leverage = Math_min leverage (maxLeverage config)\<rparr>)"

section \<open>Alpha Ranker\<close>

record OrderBookLevel =
  price :: number
  level_quantity :: number

record OrderBook =
  bids :: "OrderBookLevel list"
  asks :: "OrderBookLevel list"

record AlphaRankerConfig =
  minEvScore :: number
  minKellyScore :: number
  rankerTakerFee :: number
  slippageBuffer :: number

text \<open>
  An \<open>EvaluatedSignal\<close> is the signal spread into a new object together with the
  evaluation metrics.
\<close>

record EvaluatedSignal =
  signal :: Signal
  spread_penalty :: number
  gross_roi :: number
  round_trip_fees :: number
  net_roi :: number
  ev_score :: number
  kelly_score :: number
  reward_to_risk :: number
  risk_pct :: number

text \<open>\<open>best levels\<close> is \<open>levels[0]?.price ?? 0\<close>.\<close>

definition best :: "OrderBookLevel list \<Rightarrow> number" where
  "best levels = (case levels of [] \<Rightarrow> Num 0 | l # _ \<Rightarrow> price l)"

definition calculate_spread_penalty :: "OrderBook \<Rightarrow> number" where
  "calculate_spread_penalty orderBook =
     (let bestBid = best (bids orderBook); bestAsk = best (asks orderBook)
      in if bestBid = Num 0 \<or> bestAsk = Num 0 then Num 0
         else let midPrice = fdiv (fadd bestBid bestAsk) (Num 2);
                  spread = fsub bestAsk bestBid
              in fmul (fdiv spread midPrice) (Num 100))"

definition calculate_effective_entry ::
  "AlphaRankerConfig \<Rightarrow> SignalDirection \<Rightarrow> OrderBook \<Rightarrow> number \<times> number" where
  "calculate_effective_entry config dir orderBook =
     (let bestBid = best (bids orderBook); bestAsk = best (asks orderBook)
      in if bestBid = Num 0 \<or> bestAsk = Num 0 then (Num 0, Num 0)
         else let midPrice = fdiv (fadd bestBid bestAsk) (Num 2);
                  slippagePct = slippageBuffer config
              in if dir = LONG
                 then let entryPrice = fmul bestAsk (fadd (Num 1) (fdiv slippagePct (Num 100)))
                      in (entryPrice, fsub entryPrice midPrice)
                 else let entryPrice = fmul bestBid (fsub (Num 1) (fdiv slippagePct (Num 100)))
                      in (entryPrice, fsub midPrice entryPrice))"

definition calculate_round_trip_fees :: "AlphaRankerConfig \<Rightarrow> number \<Rightarrow> number" where
  "calculate_round_trip_fees config entryValue =
     (let entryFee = fmul entryValue (rankerTakerFee config);
          exitFee = fmul entryValue (rankerTakerFee config)
      in fadd entryFee exitFee)"

text \<open>
  \<open>evaluate_signal\<close>; the effective entry and the target price it computes first are
  not read by the rest of the body.
\<close>

definition evaluate_signal :: "AlphaRankerConfig \<Rightarrow> Signal \<Rightarrow> OrderBook \<Rightarrow> EvaluatedSignal" where
  "evaluate_signal config sig orderBook =
     (let spreadPenalty = calculate_spread_penalty orderBook;
          capital = Num 15;
          positionValue = capital;
          grossRoi = expected_move_pct sig;
          roundTripFees = calculate_round_trip_fees config positionValue;
          feesAsPct = fmul (fdiv roundTripFees positionValue) (Num 100);
          netRoi = fsub (fsub grossRoi spreadPenalty) feesAsPct;
          atr = nullish (atr sig) (Num 0);
          currentPrice = nullish (current_price sig) (Num 0);
          riskPct = (if Num 0 < atr \<and> Num 0 < currentPrice
                     then fmul (fdiv atr currentPrice) (Num 100)
                     else fdiv (expected_move_pct sig) (Num 2));
          rewardToRisk = (if Num 0 < riskPct then fdiv netRoi riskPct else Num 0);
          winProb = win_probability sig;
          lossProb = fsub (Num 1) winProb;
          evScore = fsub (fmul winProb netRoi) (fmul lossProb riskPct);
          kellyScore = (if Num 0 < rewardToRisk
                        then Math_max (Num 0)
                               (Math_min (Num (25 / 100)) (fsub winProb (fdiv lossProb rewardToRisk)))
                        else Num 0)
      in \<lparr>signal = sig, spread_penalty = spreadPenalty, gross_roi = grossRoi,
          round_trip_fees = feesAsPct, net_roi = netRoi, ev_score = evScore,
          kelly_score = kellyScore, reward_to_risk = rewardToRisk, risk_pct = riskPct\<rparr>)"

text \<open>
  \<open>Array.prototype.sort\<close> with a comparison function is a stable sort; a comparison
  result that is \<open>NaN\<close> counts as 0. The model inserts each element, from the last to
  the first, in front of the first element it need not follow.
\<close>

fun insert_sorted :: "('a \<Rightarrow> 'a \<Rightarrow> number) \<Rightarrow> 'a \<Rightarrow> 'a list \<Rightarrow> 'a list" where
  "insert_sorted comparefn x [] = [x]"
| "insert_sorted comparefn x (y # ys) =
     (if Num 0 < comparefn x y then y # insert_sorted comparefn x ys else x # y # ys)"

definition Array_sort :: "('a \<Rightarrow> 'a \<Rightarrow> number) \<Rightarrow> 'a list \<Rightarrow> 'a list" where
  "Array_sort comparefn xs = foldr (insert_sorted comparefn) xs []"

definition evaluate_and_sort ::
  "AlphaRankerConfig \<Rightarrow> Signal list \<Rightarrow> OrderBook \<Rightarrow> EvaluatedSignal list" where
  "evaluate_and_sort config signals orderBook =
     (let evaluatedSignals = map (\<lambda>sig. evaluate_signal config sig orderBook) signals;
          filteredSignals =
            filter (\<lambda>s. let meetsMinEv = minEvScore config \<le> ev_score s;
                            meetsMinKelly = minKellyScore config \<le> kelly_score s;
                            positiveNetRoi = Num 0 < net_roi s
                        in meetsMinEv \<and> meetsMinKelly \<and> positiveNetRoi) evaluatedSignals;
          sortedSignals =
            Array_sort (\<lambda>a b. let scoreA = fadd (fmul (ev_score a) (binary64 (6 / 10)))
                                             (fmul (fmul (kelly_score a) (Num 100)) (binary64 (4 / 10)));
                                  scoreB = fadd (fmul (ev_score b) (binary64 (6 / 10)))
                                             (fmul (fmul (kelly_score b) (Num 100)) (binary64 (4 / 10)))
                              in fsub scoreB scoreA) filteredSignals
      in sortedSignals)"

definition calculate_kelly_fraction :: "number \<Rightarrow> number \<Rightarrow> number" where
  "calculate_kelly_fraction winProbability rewardToRisk =
     (if rewardToRisk \<le> Num 0 then Num 0
      else let fullKelly = fsub winProbability (fdiv (fsub (Num 1) winProbability) rewardToRisk);
               halfKelly = fdiv fullKelly (Num 2)
           in Math_max (Num 0) (Math_min (Num (25 / 100)) halfKelly))"

section \<open>Venues, router and bot state\<close>

datatype Exchange = MEXC | BYBIT

text \<open>
  Every call that leaves the process is an effect. The trace of a run lists its effects in
  order, each with whether the call threw. What a call returns is given by the
  environment, a \<open>Venue\<close>, as a function of the number of effects before it, so that
  the answers may change from call to call. Strings in the answers are already parsed
  into numbers (\<open>parseFloat\<close>).
\<close>

datatype Effect =
    GetInstrumentsInfo Exchange string
  | GetPositions Exchange
  | GetKlines Exchange string
  | SetTradingStop string "number option" "number option"
  | SetLeverage string number
  | PlaceOrder Exchange string string number
  | SendMessage
  | Sleep number

record InstrumentInfo =
  tickSize :: number
  qtyStep :: number
  minNotional :: number

text \<open>
  A position as a venue client reports it and as \<open>router.getPositions\<close> returns it:
  \<open>amount\<close> is Bybit's \<open>size\<close> and MEXC's \<open>positionAmt\<close>, \<open>vside\<close> is MEXC's
  \<open>positionSide\<close>, \<open>ventryPrice\<close> is Bybit's \<open>avgPrice\<close>.
\<close>

record VenuePosition =
  vsymbol :: string
  vside :: string
  amount :: number
  ventryPrice :: number
  unrealizedPnl :: number

text \<open>
  What a venue answers to an order: MEXC's response carries all of these fields, of
  Bybit's only the order id is read.
\<close>

record OrderAck =
  orderId :: string
  ack_symbol :: string
  ack_side :: string
  ack_type :: string
  ack_status :: string
  origQty :: "number option"
  ack_price :: "number option"

record Venue =
  instruments_info :: "nat \<Rightarrow> Exchange \<Rightarrow> string \<Rightarrow> error + (string \<times> InstrumentInfo) list"
  venue_positions :: "nat \<Rightarrow> Exchange \<Rightarrow> error + VenuePosition list"
  klines :: "nat \<Rightarrow> Exchange \<Rightarrow> string \<Rightarrow> error + Candle list"
  trading_stop :: "nat \<Rightarrow> string \<Rightarrow> number option \<Rightarrow> number option \<Rightarrow> error option"
  set_leverage :: "nat \<Rightarrow> string \<Rightarrow> number \<Rightarrow> error option"
  place_order :: "nat \<Rightarrow> Exchange \<Rightarrow> string \<Rightarrow> string \<Rightarrow> number \<Rightarrow> number \<Rightarrow> number
                   \<Rightarrow> error + OrderAck"
  send_message :: "nat \<Rightarrow> error option"
  message_wait :: "nat \<Rightarrow> number option"
  new_id :: "nat \<Rightarrow> string \<Rightarrow> nat \<Rightarrow> string"

text \<open>
  A \<open>Position\<close>, without the fields that no modelled function reads. Where a field
  name of the source is already taken by an earlier record, it carries a prefix here
  (\<open>pos_symbol\<close> for \<open>symbol\<close>, and so on).
\<close>

record Position =
  position_id :: string
  pos_symbol :: string
  exchange :: Exchange
  side :: SignalDirection
  position_size :: number
  pos_entry_price :: number
  pos_current_price :: "number option"
  pos_leverage :: number
  margin :: number
  unrealized_pnl :: "number option"
  stop_loss :: "number option"
  take_profit :: "number option"

record ShutdownState =
  isShuttingDown :: bool
  shutdownTimestamp :: "nat option"
  shutdownReason :: "string option"
  positionsBeforeShutdown :: "Position list"
  positionsUpdated :: "Position list"
  errors :: "string list"
  shutdownComplete :: bool

datatype BotStateStatus = Idle | Running | Paused | Stopping | ErrorStatus | ShuttingDown | Stopped

text \<open>
  The bot state store, with the parts the shutdown protocol touches. No event listener is
  registered (a listener that throws is caught by \<open>emitEvent\<close>), and the start time that
  \<open>setStatus\<close> records on the first \<open>running\<close> is left out.
\<close>

record BotStateManager =
  status :: BotStateStatus
  activePositions :: "(string \<times> Position) list"
  storeActivityLog :: "string list"
  shutdownState :: ShutdownState

definition logActivity :: "string \<Rightarrow> BotStateManager \<Rightarrow> BotStateManager" where
  "logActivity event b = b\<lparr>storeActivityLog := take 100 (event # storeActivityLog b)\<rparr>"

definition setStatus :: "BotStateStatus \<Rightarrow> BotStateManager \<Rightarrow> BotStateManager" where
  "setStatus st b = logActivity ''STATUS_CHANGED'' (b\<lparr>status := st\<rparr>)"

definition getActivePositions :: "BotStateManager \<Rightarrow> Position list" where
  "getActivePositions b = map snd (activePositions b)"

definition initiateShutdown :: "nat \<Rightarrow> string \<Rightarrow> BotStateManager \<Rightarrow> BotStateManager" where
  "initiateShutdown time reason b =
     setStatus Stopping
       (b\<lparr>shutdownState := (shutdownState b)
            \<lparr>isShuttingDown := True, shutdownTimestamp := Some time,
             shutdownReason := Some reason,
             positionsBeforeShutdown := getActivePositions b,
             errors := [], shutdownComplete := False\<rparr>\<rparr>)"

definition setShutdownPositionsFetched :: "Position list \<Rightarrow> BotStateManager \<Rightarrow> BotStateManager" where
  "setShutdownPositionsFetched ps b =
     b\<lparr>shutdownState := (shutdownState b)\<lparr>positionsBeforeShutdown := ps\<rparr>\<rparr>"

definition addShutdownPositionUpdated ::
  "Position \<Rightarrow> number option \<Rightarrow> number option \<Rightarrow> BotStateManager \<Rightarrow> BotStateManager" where
  "addShutdownPositionUpdated pos sl tp b =
     (let updatedPosition =
            pos\<lparr>stop_loss := (case sl of Some v \<Rightarrow> Some v | None \<Rightarrow> stop_loss pos),
                take_profit := (case tp of Some v \<Rightarrow> Some v | None \<Rightarrow> take_profit pos)\<rparr>
      in b\<lparr>shutdownState := (shutdownState b)
             \<lparr>positionsUpdated := positionsUpdated (shutdownState b) @ [updatedPosition]\<rparr>\<rparr>)"

definition addShutdownError :: "string \<Rightarrow> BotStateManager \<Rightarrow> BotStateManager" where
  "addShutdownError e b =
     b\<lparr>shutdownState := (shutdownState b)\<lparr>errors := errors (shutdownState b) @ [e]\<rparr>\<rparr>"

definition completeShutdown :: "BotStateManager \<Rightarrow> BotStateManager" where
  "completeShutdown b =
     setStatus Idle
       (b\<lparr>shutdownState := (shutdownState b)\<lparr>shutdownComplete := True, isShuttingDown := False\<rparr>\<rparr>)"

datatype TradeSignal = TradeLONG | TradeSHORT | CLOSE_LONG | CLOSE_SHORT

record TradeParams =
  trade_signal :: TradeSignal
  trade_symbol :: string
  currentPrice :: number
  trade_atr :: number
  walletBalance :: number
  trade_leverage :: "number option"
  riskPercent :: "number option"
  rewardRiskRatio :: "number option"

text \<open>
  The router's own \<open>RiskPhysics\<close> record and its \<open>TradeResult\<close>. Messages keep
  their fixed text; the numbers the source formats into them are left out.
\<close>

record RouterRiskPhysics =
  rp_entryPrice :: number
  stopLoss :: number
  takeProfit :: number
  rp_positionSize :: number
  positionValue :: number
  riskAmount :: number
  rewardAmount :: number
  rp_riskPercent :: number
  rp_leverage :: number
  liquidationPrice :: number
  isValid :: bool
  validationErrors :: "string list"

record TradeResult =
  success :: bool
  result_exchange :: Exchange
  result_orderId :: "string option"
  result_symbol :: string
  result_side :: string
  order_type :: string
  result_quantity :: number
  result_price :: "number option"
  result_takeProfit :: "number option"
  result_stopLoss :: "number option"
  result_status :: string
  message :: string
  riskPhysics :: "RouterRiskPhysics option"

text \<open>
  The router: its configuration, its two clients (\<open>None\<close> when the credentials are
  missing; a client is its own instrument cache) and its instrument cache.
\<close>

record ExecutionRouterConfig =
  defaultExchange :: Exchange
  defaultLeverage :: number
  defaultRiskPercent :: number
  defaultRewardRiskRatio :: number
  routerMaxCapitalPerTrade :: number
  minCapitalRequired :: number

record ExecutionRouter =
  routerConfig :: ExecutionRouterConfig
  mexcClient :: "(string \<rightharpoonup> InstrumentInfo) option"
  bybitClient :: "(string \<rightharpoonup> InstrumentInfo) option"
  instrumentCache :: "(Exchange \<times> string) \<rightharpoonup> InstrumentInfo"

text \<open>
  The world outside a protocol instance: the router, the bot state store, the events of
  the activity logger, and the trace of effects so far.
\<close>

record World =
  router :: ExecutionRouter
  botState :: BotStateManager
  activityLogger :: "string list"
  trace :: "(Effect \<times> bool) list"

definition now :: "World \<Rightarrow> nat" where
  "now w = length (trace w)"

definition emit :: "Effect \<Rightarrow> bool \<Rightarrow> World \<Rightarrow> World" where
  "emit e threw w = w\<lparr>trace := trace w @ [(e, threw)]\<rparr>"

definition log_event :: "string \<Rightarrow> World \<Rightarrow> World" where
  "log_event event w = w\<lparr>activityLogger := take 100 (event # activityLogger w)\<rparr>"

definition message_of :: "error \<Rightarrow> string" where
  "message_of e =
     (case e of Error m \<Rightarrow> m
      | RangeError \<Rightarrow> ''toFixed() digits argument must be between 0 and 100'')"

text \<open>
  \<open>router.getPositions\<close> catches every error of the client call and returns what it has
  collected, which is nothing when the call threw.
\<close>

definition getPositions :: "Venue \<Rightarrow> Exchange \<Rightarrow> World \<Rightarrow> VenuePosition list \<times> World" where
  "getPositions venue ex w =
     (if ex = MEXC \<and> mexcClient (router w) \<noteq> None then
        (case venue_positions venue (now w) MEXC of
           Inl e \<Rightarrow> ([], emit (GetPositions MEXC) True w)
         | Inr mexcPositions \<Rightarrow>
             (map (\<lambda>pos. pos\<lparr>amount := Math_abs (amount pos)\<rparr>)
                (filter (\<lambda>pos. amount pos \<noteq> Num 0) mexcPositions),
              emit (GetPositions MEXC) False w))
      else if ex = BYBIT \<and> bybitClient (router w) \<noteq> None then
        (case venue_positions venue (now w) BYBIT of
           Inl e \<Rightarrow> ([], emit (GetPositions BYBIT) True w)
         | Inr bybitPositions \<Rightarrow>
             (filter (\<lambda>pos. amount pos \<noteq> Num 0) bybitPositions,
              emit (GetPositions BYBIT) False w))
      else ([], w))"

definition updateTpSl ::
  "Venue \<Rightarrow> string \<Rightarrow> number option \<Rightarrow> number option \<Rightarrow> Exchange \<Rightarrow> World \<Rightarrow> TradeResult \<times> World" where
  "updateTpSl venue ticker tp sl ex w =
     (if ex = BYBIT \<and> bybitClient (router w) \<noteq> None then
        (case trading_stop venue (now w) ticker tp sl of
           None \<Rightarrow>
             (\<lparr>success = True, result_exchange = BYBIT, result_orderId = None,
               result_symbol = ticker, result_side = [], order_type = [],
               result_quantity = Num 0, result_price = None, result_takeProfit = tp,
               result_stopLoss = sl, result_status = ''UPDATED'',
               message = ''TP/SL updated successfully'', riskPhysics = None\<rparr>,
              emit (SetTradingStop ticker tp sl) False w)
         | Some e \<Rightarrow>
             (\<lparr>success = False, result_exchange = ex, result_orderId = None,
               result_symbol = ticker, result_side = [], order_type = [],
               result_quantity = Num 0, result_price = None, result_takeProfit = None,
               result_stopLoss = None, result_status = ''ERROR'',
               message = ''TP/SL update error: '' @ message_of e, riskPhysics = None\<rparr>,
              emit (SetTradingStop ticker tp sl) True w))
      else if ex = MEXC \<and> mexcClient (router w) \<noteq> None then
        (\<lparr>success = False, result_exchange = MEXC, result_orderId = None,
          result_symbol = ticker, result_side = [], order_type = [],
          result_quantity = Num 0, result_price = None, result_takeProfit = None,
          result_stopLoss = None, result_status = ''NOT_SUPPORTED'',
          message = ''MEXC TP/SL update requires separate orders'', riskPhysics = None\<rparr>, w)
      else
        (\<lparr>success = False, result_exchange = ex, result_orderId = None,
          result_symbol = ticker, result_side = [], order_type = [],
          result_quantity = Num 0, result_price = None, result_takeProfit = None,
          result_stopLoss = None, result_status = ''ERROR'',
          message = ''TP/SL update error: Exchange client not configured'',
          riskPhysics = None\<rparr>, w))"

section \<open>Immortal Exit protocol\<close>

record ImmortalExitConfig =
  exitExchange :: Exchange
  defaultAtrMultiplierSL :: number
  defaultAtrMultiplierTP :: number
  maxRetries :: nat
  retryDelayMs :: number

text \<open>
  The Telegram bot, with the one field that \<open>sendMessage\<close> reads.
\<close>

record TelegramBot =
  enabled :: bool

text \<open>
  A protocol instance: its private \<open>isShuttingDown\<close> flag (\<open>guard\<close>), its Telegram
  bot if it has one, and its configuration. Its \<open>RiskPhysics\<close> is built with the
  default configuration.
\<close>

record ImmortalExitProtocol =
  guard :: bool
  telegramBot :: "TelegramBot option"
  exitConfig :: ImmortalExitConfig

record ReevaluatedPosition =
  position :: Position
  newSL :: number
  newTP :: number
  oldSL :: "number option"
  oldTP :: "number option"
  updated :: bool
  error :: "string option"

definition toUpperCase :: "string \<Rightarrow> string" where
  "toUpperCase str =
     map (\<lambda>c. let n = (of_char c :: nat)
               in if 97 \<le> n \<and> n \<le> 122 then char_of (n - 32) else c) str"

text \<open>
  \<open>fetchOpenPositions\<close>. The try block of its retry loop cannot throw, since
  \<open>router.getPositions\<close> catches its errors, so the first attempt returns; with no
  attempt allowed the locally cached positions are returned.
\<close>

definition fetchOpenPositions ::
  "Venue \<Rightarrow> ImmortalExitProtocol \<Rightarrow> World \<Rightarrow> Position list \<times> World" where
  "fetchOpenPositions venue p w =
     (if 0 < maxRetries (exitConfig p) then
        (let (positions, w1) = getPositions venue (exitExchange (exitConfig p)) w
         in (map (\<lambda>(index, vp).
                    \<lparr>position_id = new_id venue (now w1) (vsymbol vp) index,
                     pos_symbol = vsymbol vp,
                     exchange = exitExchange (exitConfig p),
                     side = (if toUpperCase (vside vp) = ''BUY'' \<or> toUpperCase (vside vp) = ''LONG''
                             then LONG else SHORT),
                     position_size = amount vp,
                     pos_entry_price = ventryPrice vp,
                     pos_current_price = Some (ventryPrice vp),
                     pos_leverage = Num 1,
                     margin = amount vp * ventryPrice vp,
                     unrealized_pnl = Some (unrealizedPnl vp),
                     stop_loss = None,
                     take_profit = None\<rparr>)
               (enumerate 0 positions), w1))
      else (getActivePositions (botState w), w))"

text \<open>
  \<open>fetchMarketData\<close> returns \<open>null\<close> (\<open>None\<close>) when the klines are too few, when no
  client matches the configured exchange, and when the kline call throws.
\<close>

definition fetchMarketData ::
  "Venue \<Rightarrow> ImmortalExitProtocol \<Rightarrow> string \<Rightarrow> World \<Rightarrow> (number \<times> number) option \<times> World" where
  "fetchMarketData venue p ticker w =
     (if exitExchange (exitConfig p) = BYBIT \<and> bybitClient (router w) \<noteq> None then
        (case klines venue (now w) BYBIT ticker of
           Inl e \<Rightarrow> (None, emit (GetKlines BYBIT ticker) True w)
         | Inr candles \<Rightarrow>
             (if length candles < 15 then None
              else Some (close (candles ! 0), calculate_atr candles 14),
              emit (GetKlines BYBIT ticker) False w))
      else if exitExchange (exitConfig p) = MEXC \<and> mexcClient (router w) \<noteq> None then
        (case klines venue (now w) MEXC ticker of
           Inl e \<Rightarrow> (None, emit (GetKlines MEXC ticker) True w)
         | Inr candles \<Rightarrow>
             (if length candles < 15 then None
              else Some (close (candles ! (length candles - 1)), calculate_atr candles 14),
              emit (GetKlines MEXC ticker) False w))
      else (None, w))"

text \<open>\<open>falsy x\<close> is \<open>!x\<close> on a number; \<open>or_zero x\<close> is \<open>x || 0\<close> on an optional number.\<close>

definition falsy :: "number \<Rightarrow> bool" where
  "falsy x = (x = Num 0 \<or> x = NaN)"

definition or_zero :: "number option \<Rightarrow> number" where
  "or_zero x = (case x of None \<Rightarrow> Num 0 | Some v \<Rightarrow> if falsy v then Num 0 else v)"

text \<open>\<open>level_changed old new\<close> is \<open>!old || Math.abs(old - new) / old > 0.01\<close>.\<close>

definition level_changed :: "number option \<Rightarrow> number \<Rightarrow> bool" where
  "level_changed old new =
     (case old of None \<Rightarrow> True
      | Some v \<Rightarrow> falsy v \<or> Num (1 / 100) < Math_abs (v - new) / v)"

definition reevaluatePosition ::
  "Venue \<Rightarrow> ImmortalExitProtocol \<Rightarrow> Position \<Rightarrow> World \<Rightarrow> ReevaluatedPosition \<times> World" where
  "reevaluatePosition venue p pos w =
     (let (marketData, w1) = fetchMarketData venue p (pos_symbol pos) w
      in case marketData of
           None \<Rightarrow>
             (\<lparr>position = pos, newSL = or_zero (stop_loss pos), newTP = or_zero (take_profit pos),
               oldSL = None, oldTP = None, updated = False,
               error = Some ''Failed to fetch market data''\<rparr>, w1)
         | Some (price_now, atrValue) \<Rightarrow>
             (let signalForCalc =
                    \<lparr>symbol = pos_symbol pos, strategy = ''IMMORTAL_EXIT'',
                     direction = (if side pos = LONG then LONG else SHORT),
                     win_probability = Num (5 / 10),
                     expected_move_pct = (atrValue / price_now) * Num 100,
                     entry_price = None, current_price = Some price_now,
                     atr = Some atrValue\<rparr>
              in case calculate_tp_sl DEFAULT_RISK_PHYSICS_CONFIG signalForCalc
                        (Some (defaultAtrMultiplierTP (exitConfig p)))
                        (Some (defaultAtrMultiplierSL (exitConfig p))) of
                   Inl e \<Rightarrow>
                     (\<lparr>position = pos, newSL = or_zero (stop_loss pos),
                       newTP = or_zero (take_profit pos), oldSL = None, oldTP = None,
                       updated = False, error = Some (message_of e)\<rparr>, w1)
                 | Inr riskLevels \<Rightarrow>
                     (let slChanged = level_changed (stop_loss pos) (stopLossPrice riskLevels);
                          tpChanged = level_changed (take_profit pos) (takeProfitPrice riskLevels);
                          needsUpdate = slChanged \<or> tpChanged
                      in (\<lparr>position = pos\<lparr>pos_current_price := Some price_now\<rparr>,
                           newSL = stopLossPrice riskLevels, newTP = takeProfitPrice riskLevels,
                           oldSL = stop_loss pos, oldTP = take_profit pos,
                           updated = needsUpdate, error = None\<rparr>, w1))))"

text \<open>
  The retry loop of \<open>updatePositionOnExchange\<close>, on the number of attempts left. The
  result is the message of the error thrown (\<open>Some\<close>), or \<open>None\<close> when an attempt
  succeeded.
\<close>

fun update_attempts ::
  "Venue \<Rightarrow> ImmortalExitProtocol \<Rightarrow> Position \<Rightarrow> number \<Rightarrow> number \<Rightarrow> nat \<Rightarrow> string option \<Rightarrow> World
    \<Rightarrow> string option \<times> World" where
  "update_attempts venue p pos sl tp 0 lastError w =
     (Some (case lastError of Some e \<Rightarrow> e | None \<Rightarrow> ''Failed to update position''), w)"
| "update_attempts venue p pos sl tp (Suc remaining) lastError w =
     (let (result, w1) = updateTpSl venue (pos_symbol pos) (Some tp) (Some sl)
                           (exitExchange (exitConfig p)) w
      in if success result then (None, log_event ''POSITION_TPSL_UPDATED'' w1)
         else update_attempts venue p pos sl tp remaining (Some (message result))
                (if 0 < remaining then emit (Sleep (retryDelayMs (exitConfig p))) False w1
                 else w1))"

definition updatePositionOnExchange ::
  "Venue \<Rightarrow> ImmortalExitProtocol \<Rightarrow> Position \<Rightarrow> number \<Rightarrow> number \<Rightarrow> World \<Rightarrow> string option \<times> World" where
  "updatePositionOnExchange venue p pos sl tp w =
     update_attempts venue p pos sl tp (maxRetries (exitConfig p)) None w"

text \<open>
  \<open>TelegramBot.sendMessage\<close>: a disabled bot sends nothing. The request goes through
  the rate limiter, which first waits when the previous message is less than a second old
  (\<open>message_wait\<close> of the environment gives the wait, if any). The outcome is written to
  the activity logger, and a failure is caught and returned as \<open>false\<close>.
\<close>

definition sendMessage :: "Venue \<Rightarrow> TelegramBot \<Rightarrow> World \<Rightarrow> bool \<times> World" where
  "sendMessage venue telegram w =
     (if \<not> enabled telegram then (False, w)
      else let w1 = (case message_wait venue (now w) of
                       None \<Rightarrow> w
                     | Some ms \<Rightarrow> emit (Sleep ms) False w)
           in case send_message venue (now w1) of
                None \<Rightarrow> (True, log_event ''TELEGRAM_MESSAGE_SENT'' (emit SendMessage False w1))
              | Some e \<Rightarrow> (False, log_event ''TELEGRAM_ERROR'' (emit SendMessage True w1)))"

text \<open>
  \<open>sendFinalNotification\<close>: the text of the message is built from the shutdown state and
  is not modelled; \<open>sendMessage\<close> does not throw.
\<close>

definition sendFinalNotification ::
  "Venue \<Rightarrow> ImmortalExitProtocol \<Rightarrow> Position list \<Rightarrow> World \<Rightarrow> World" where
  "sendFinalNotification venue p positions w =
     (case telegramBot p of
        None \<Rightarrow> w
      | Some telegram \<Rightarrow> snd (sendMessage venue telegram w))"

definition logShutdown :: "Position list \<Rightarrow> World \<Rightarrow> World" where
  "logShutdown positions w = log_event ''IMMORTAL_EXIT_COMPLETE'' w"

text \<open>
  Step 2 of \<open>execute\<close>: every position is re-evaluated in turn. \<open>reevaluatePosition\<close>
  catches whatever goes wrong and returns a record with its \<open>error\<close> set, so the
  \<open>catch\<close> of this loop, the only place of step 2 that calls \<open>addShutdownError\<close>, is
  never entered.
\<close>

fun reevaluate_all ::
  "Venue \<Rightarrow> ImmortalExitProtocol \<Rightarrow> Position list \<Rightarrow> ReevaluatedPosition list \<Rightarrow> World
    \<Rightarrow> ReevaluatedPosition list \<times> World" where
  "reevaluate_all venue p [] reevaluatedPositions w = (reevaluatedPositions, w)"
| "reevaluate_all venue p (pos # rest) reevaluatedPositions w =
     (let (reevaluated, w1) = reevaluatePosition venue p pos w
      in reevaluate_all venue p rest (reevaluatedPositions @ [reevaluated]) w1)"

text \<open>
  Step 3: every position marked \<open>updated\<close> is pushed to the exchange; a failure is
  written into the record and into the store's error list.
\<close>

fun update_all ::
  "Venue \<Rightarrow> ImmortalExitProtocol \<Rightarrow> ReevaluatedPosition list \<Rightarrow> World
    \<Rightarrow> ReevaluatedPosition list \<times> World" where
  "update_all venue p [] w = ([], w)"
| "update_all venue p (reevaluated # rest) w =
     (if updated reevaluated then
        (case updatePositionOnExchange venue p (position reevaluated)
                (newSL reevaluated) (newTP reevaluated) w of
           (None, w1) \<Rightarrow>
             (let w2 = w1\<lparr>botState := addShutdownPositionUpdated (position reevaluated)
                             (Some (newSL reevaluated)) (Some (newTP reevaluated)) (botState w1)\<rparr>;
                  (rest1, w3) = update_all venue p rest w2
              in (reevaluated # rest1, w3))
         | (Some errorMessage, w1) \<Rightarrow>
             (let w2 = w1\<lparr>botState := addShutdownError errorMessage (botState w1)\<rparr>;
                  (rest1, w3) = update_all venue p rest w2
              in (reevaluated\<lparr>error := Some errorMessage\<rparr> # rest1, w3)))
      else (let (rest1, w1) = update_all venue p rest w in (reevaluated # rest1, w1)))"

text \<open>
  The protocol after the guard. It reads the instance and never writes it. Nothing in
  the try block of \<open>execute\<close> throws (each step catches its own errors), so its
  \<open>catch\<close>, which would also complete the shutdown, is not entered.
\<close>

definition run_protocol :: "Venue \<Rightarrow> string \<Rightarrow> ImmortalExitProtocol \<Rightarrow> World \<Rightarrow> World" where
  "run_protocol venue reason p w0 =
     (let w1 = w0\<lparr>botState := initiateShutdown (now w0) reason (botState w0)\<rparr>;
          w2 = log_event ''IMMORTAL_EXIT_STARTED'' w1;
          (positions, w3) = fetchOpenPositions venue p w2;
          w4 = w3\<lparr>botState := setShutdownPositionsFetched positions (botState w3)\<rparr>
      in if length positions = 0 then
           (let w5 = sendFinalNotification venue p [] w4;
                w6 = logShutdown [] w5
            in w6\<lparr>botState := completeShutdown (botState w6)\<rparr>)
         else
           (let (reevaluatedPositions, w5) = reevaluate_all venue p positions [] w4;
                (reevaluatedPositions1, w6) = update_all venue p reevaluatedPositions w5;
                w7 = sendFinalNotification venue p
                       (map position (filter updated reevaluatedPositions1)) w6;
                w8 = logShutdown positions w7
            in w8\<lparr>botState := completeShutdown (botState w8)\<rparr>))"

text \<open>
  \<open>execute\<close>: the guard is tested and set before the first \<open>await\<close>, so no other call
  can run between the test and the assignment.
\<close>

definition execute ::
  "Venue \<Rightarrow> string \<Rightarrow> ImmortalExitProtocol \<times> World \<Rightarrow> ImmortalExitProtocol \<times> World" where
  "execute venue reason pw =
     (case pw of (p, w) \<Rightarrow>
        if guard p then (p, w)
        else (p\<lparr>guard := True\<rparr>, run_protocol venue reason (p\<lparr>guard := True\<rparr>) w))"

section \<open>Execution router: executeTrade\<close>

definition Math_pow10 :: "number \<Rightarrow> number" where
  "Math_pow10 x =
     (case x of Num p \<Rightarrow> Num (10 powr p) | Infinity \<Rightarrow> Infinity
      | NegInfinity \<Rightarrow> Num 0 | NaN \<Rightarrow> NaN)"

definition roundPrice :: "number \<Rightarrow> number \<Rightarrow> number" where
  "roundPrice pr tick =
     (let precision = Math_ceil (- Math_log10 tick);
          multiplier = Math_pow10 precision
      in Math_round (pr * multiplier) / multiplier)"

definition roundQty :: "number \<Rightarrow> number \<Rightarrow> number" where
  "roundQty qty step =
     (let precision = Math_ceil (- Math_log10 step);
          multiplier = Math_pow10 precision
      in Math_floor (qty * multiplier) / multiplier)"

definition DEFAULT_INSTRUMENT :: InstrumentInfo where
  "DEFAULT_INSTRUMENT = \<lparr>tickSize = Num (1 / 100), qtyStep = Num (1 / 1000), minNotional = Num 5\<rparr>"

text \<open>
  \<open>getInstrumentInfo\<close> of a venue client (both clients are written alike): the client's
  cache, or one request to the venue whose instruments are all cached.
\<close>

definition client_getInstrumentInfo ::
  "Venue \<Rightarrow> Exchange \<Rightarrow> string \<Rightarrow> World \<Rightarrow> (error + InstrumentInfo option) \<times> World" where
  "client_getInstrumentInfo venue ex ticker w =
     (case (if ex = MEXC then mexcClient (router w) else bybitClient (router w)) of
        None \<Rightarrow> (Inr None, w)
      | Some cache \<Rightarrow>
          (case cache ticker of
             Some info \<Rightarrow> (Inr (Some info), w)
           | None \<Rightarrow>
               (case instruments_info venue (now w) ex ticker of
                  Inl e \<Rightarrow> (Inl e, emit (GetInstrumentsInfo ex ticker) True w)
                | Inr items \<Rightarrow>
                    (let cache1 = foldl (\<lambda>c item. c(fst item \<mapsto> snd item)) cache items;
                         r1 = (if ex = MEXC then (router w)\<lparr>mexcClient := Some cache1\<rparr>
                               else (router w)\<lparr>bybitClient := Some cache1\<rparr>)
                     in (Inr (cache1 ticker),
                         emit (GetInstrumentsInfo ex ticker) False (w\<lparr>router := r1\<rparr>))))))"

definition getInstrumentInfo ::
  "Venue \<Rightarrow> Exchange \<Rightarrow> string \<Rightarrow> World \<Rightarrow> (error + InstrumentInfo) \<times> World" where
  "getInstrumentInfo venue ex ticker w =
     (case instrumentCache (router w) (ex, ticker) of
        Some info \<Rightarrow> (Inr info, w)
      | None \<Rightarrow>
          if (ex = MEXC \<and> mexcClient (router w) \<noteq> None)
             \<or> (ex = BYBIT \<and> bybitClient (router w) \<noteq> None)
          then (case client_getInstrumentInfo venue ex ticker w of
                  (Inl e, w1) \<Rightarrow> (Inl e, w1)
                | (Inr None, w1) \<Rightarrow> (Inr DEFAULT_INSTRUMENT, w1)
                | (Inr (Some info), w1) \<Rightarrow>
                    (Inr info,
                     w1\<lparr>router := (router w1)
                           \<lparr>instrumentCache := (instrumentCache (router w1))((ex, ticker) \<mapsto> info)\<rparr>\<rparr>))
          else (Inr DEFAULT_INSTRUMENT, w))"

definition calculateRiskPhysics ::
  "ExecutionRouterConfig \<Rightarrow> TradeSignal \<Rightarrow> number \<Rightarrow> number \<Rightarrow> number
    \<Rightarrow> number option \<Rightarrow> number option \<Rightarrow> number option \<Rightarrow> RouterRiskPhysics" where
  "calculateRiskPhysics cfg sig pr atrValue balance lev risk ratio =
     (let leverage = nullish lev (defaultLeverage cfg);
          riskPercent = nullish risk (defaultRiskPercent cfg);
          rewardRiskRatio = nullish ratio (defaultRewardRiskRatio cfg);
          riskAmount = balance * (riskPercent / Num 100);
          atrMultiplier = Num (15 / 10);
          stopLossDistance = atrValue * atrMultiplier;
          long = (sig = TradeLONG \<or> sig = CLOSE_SHORT);
          stopLoss0 = (if long then pr - stopLossDistance else pr + stopLossDistance);
          takeProfit = (if long then pr + (stopLossDistance * rewardRiskRatio)
                        else pr - (stopLossDistance * rewardRiskRatio));
          stopLoss = (if stopLoss0 \<le> Num 0 then pr * Num (95 / 100) else stopLoss0);
          errors1 = (if stopLoss0 \<le> Num 0
                     then [''Stop loss calculated as negative, using 5% fallback''] else []);
          positionSize0 = riskAmount / stopLossDistance;
          positionValue = positionSize0 * pr;
          marginRequired = positionValue / leverage;
          errors2 = errors1 @ (if marginRequired < minCapitalRequired cfg
                               then [''Margin required is below minimum''] else []);
          positionSize = (if routerMaxCapitalPerTrade cfg < positionValue
                          then routerMaxCapitalPerTrade cfg / pr else positionSize0);
          errors3 = errors2 @ (if routerMaxCapitalPerTrade cfg < positionValue
                               then [''Position size scaled down to max''] else []);
          liquidationPrice = (if sig = TradeLONG then pr * (Num 1 - Num (9 / 10) / leverage)
                              else pr * (Num 1 + Num (9 / 10) / leverage));
          rewardAmount = riskAmount * rewardRiskRatio;
          isValid = (length errors3 = 0 \<and> minCapitalRequired cfg \<le> marginRequired
                     \<and> Num 0 < positionSize)
      in \<lparr>rp_entryPrice = pr, stopLoss = stopLoss, takeProfit = takeProfit,
          rp_positionSize = positionSize, positionValue = positionSize * pr,
          riskAmount = riskAmount, rewardAmount = rewardAmount, rp_riskPercent = riskPercent,
          rp_leverage = leverage, liquidationPrice = liquidationPrice, isValid = isValid,
          validationErrors = errors3\<rparr>)"

text \<open>A result with \<open>success: false\<close> and no order id, price or protective levels.\<close>

definition failure ::
  "Exchange \<Rightarrow> string \<Rightarrow> string \<Rightarrow> string \<Rightarrow> number \<Rightarrow> string \<Rightarrow> string
    \<Rightarrow> RouterRiskPhysics option \<Rightarrow> TradeResult" where
  "failure ex ticker sd ty qty st msg rp =
     \<lparr>success = False, result_exchange = ex, result_orderId = None, result_symbol = ticker,
      result_side = sd, order_type = ty, result_quantity = qty, result_price = None,
      result_takeProfit = None, result_stopLoss = None, result_status = st, message = msg,
      riskPhysics = rp\<rparr>"

text \<open>
  The result of an async function is \<open>Inr\<close> its value or \<open>Inl\<close> the error it rejects
  with. \<open>executeMexcTrade\<close> and \<open>executeBybitTrade\<close> test for their client before
  their own try block.
\<close>

definition executeMexcTrade ::
  "Venue \<Rightarrow> TradeParams \<Rightarrow> number \<Rightarrow> number \<Rightarrow> number \<Rightarrow> number \<Rightarrow> RouterRiskPhysics \<Rightarrow> World
    \<Rightarrow> (error + TradeResult) \<times> World" where
  "executeMexcTrade venue params qty pr tp sl rp w =
     (if mexcClient (router w) = None then (Inl (Error ''MEXC client not configured''), w)
      else
        let sd = (if trade_signal params = TradeLONG \<or> trade_signal params = CLOSE_SHORT
                  then ''BUY'' else ''SELL'')
        in case place_order venue (now w) MEXC (trade_symbol params) sd qty tp sl of
             Inr order \<Rightarrow>
               (Inr \<lparr>success = True, result_exchange = MEXC, result_orderId = Some (orderId order),
                     result_symbol = ack_symbol order, result_side = ack_side order,
                     order_type = ack_type order, result_quantity = nullish (origQty order) qty,
                     result_price = Some (nullish (ack_price order) pr),
                     result_takeProfit = Some tp, result_stopLoss = Some sl,
                     result_status = ack_status order,
                     message = ''Order placed successfully on MEXC'', riskPhysics = Some rp\<rparr>,
                emit (PlaceOrder MEXC (trade_symbol params) sd qty) False w)
           | Inl e \<Rightarrow>
               (Inr (failure MEXC (trade_symbol params) sd ''MARKET'' qty ''ERROR''
                       (''MEXC order error: '' @ message_of e) (Some rp)),
                emit (PlaceOrder MEXC (trade_symbol params) sd qty) True w))"

definition executeBybitTrade ::
  "Venue \<Rightarrow> TradeParams \<Rightarrow> number \<Rightarrow> number \<Rightarrow> number \<Rightarrow> number \<Rightarrow> RouterRiskPhysics \<Rightarrow> World
    \<Rightarrow> (error + TradeResult) \<times> World" where
  "executeBybitTrade venue params qty pr tp sl rp w =
     (if bybitClient (router w) = None then (Inl (Error ''Bybit client not configured''), w)
      else
        let sd = (if trade_signal params = TradeLONG \<or> trade_signal params = CLOSE_SHORT
                  then ''Buy'' else ''Sell'')
        in case set_leverage venue (now w) (trade_symbol params) (rp_leverage rp) of
             Some e \<Rightarrow>
               (Inr (failure BYBIT (trade_symbol params) sd ''Market'' qty ''ERROR''
                       (''Bybit order error: '' @ message_of e) (Some rp)),
                emit (SetLeverage (trade_symbol params) (rp_leverage rp)) True w)
           | None \<Rightarrow>
               (let w1 = emit (SetLeverage (trade_symbol params) (rp_leverage rp)) False w
                in case place_order venue (now w1) BYBIT (trade_symbol params) sd qty tp sl of
                     Inr order \<Rightarrow>
                       (Inr \<lparr>success = True, result_exchange = BYBIT,
                             result_orderId = Some (orderId order),
                             result_symbol = trade_symbol params, result_side = sd,
                             order_type = ''Market'', result_quantity = qty,
                             result_price = Some pr, result_takeProfit = Some tp,
                             result_stopLoss = Some sl, result_status = ''Created'',
                             message = ''Order placed successfully on Bybit'',
                             riskPhysics = Some rp\<rparr>,
                        emit (PlaceOrder BYBIT (trade_symbol params) sd qty) False w1)
                   | Inl e \<Rightarrow>
                       (Inr (failure BYBIT (trade_symbol params) sd ''Market'' qty ''ERROR''
                               (''Bybit order error: '' @ message_of e) (Some rp)),
                        emit (PlaceOrder BYBIT (trade_symbol params) sd qty) True w1)))"

text \<open>
  \<open>executeTrade\<close>. The instrument lookup is awaited inside the try block, so its error
  is caught. The two venue functions are returned without \<open>await\<close>: a rejection of
  theirs is the rejection of \<open>executeTrade\<close> and does not reach the \<open>catch\<close>.
\<close>

definition executeTrade :: "Venue \<Rightarrow> TradeParams \<Rightarrow> World \<Rightarrow> (error + TradeResult) \<times> World" where
  "executeTrade venue params w =
     (let cfg = routerConfig (router w);
          ex = defaultExchange cfg;
          sd = (if trade_signal params = TradeLONG \<or> trade_signal params = CLOSE_SHORT
                then ''BUY'' else ''SELL'');
          rp = calculateRiskPhysics cfg (trade_signal params) (currentPrice params)
                 (trade_atr params) (walletBalance params) (trade_leverage params)
                 (riskPercent params) (rewardRiskRatio params)
      in if \<not> isValid rp
         then (Inr (failure ex (trade_symbol params) sd ''MARKET'' (rp_positionSize rp)
                      ''REJECTED'' ''Risk validation failed'' (Some rp)), w)
         else
           case getInstrumentInfo venue ex (trade_symbol params) w of
             (Inl e, w1) \<Rightarrow>
               (Inr (failure ex (trade_symbol params) sd ''MARKET'' (Num 0) ''ERROR''
                       (''Trade execution error: '' @ message_of e) None), w1)
           | (Inr instrumentInfo, w1) \<Rightarrow>
               (let roundedQty = roundQty (rp_positionSize rp) (qtyStep instrumentInfo);
                    roundedPrice = roundPrice (currentPrice params) (tickSize instrumentInfo);
                    roundedTP = roundPrice (takeProfit rp) (tickSize instrumentInfo);
                    roundedSL = roundPrice (stopLoss rp) (tickSize instrumentInfo);
                    notionalValue = roundedQty * roundedPrice
                in if notionalValue < minNotional instrumentInfo
                   then (Inr (failure ex (trade_symbol params) sd ''MARKET'' roundedQty
                                ''REJECTED'' ''Notional value below minimum'' (Some rp)), w1)
                   else if notionalValue < minCapitalRequired cfg
                   then (Inr (failure ex (trade_symbol params) sd ''MARKET'' roundedQty
                                ''REJECTED'' ''Trade value below minimum capital requirement''
                                (Some rp)), w1)
                   else if ex = MEXC
                   then executeMexcTrade venue params roundedQty roundedPrice roundedTP
                          roundedSL rp w1
                   else executeBybitTrade venue params roundedQty roundedPrice roundedTP
                          roundedSL rp w1))"

text \<open>
  Names for what the contract of \<open>executeTrade\<close> speaks about: the \<open>riskPhysics\<close>
  it computes first, its \<open>notionalValue\<close> for an instrument, the effects added between
  two worlds, and the effects that reach the order book (leverage and order placement).
\<close>

definition risk_of :: "World \<Rightarrow> TradeParams \<Rightarrow> RouterRiskPhysics" where
  "risk_of w params =
     calculateRiskPhysics (routerConfig (router w)) (trade_signal params) (currentPrice params)
       (trade_atr params) (walletBalance params) (trade_leverage params)
       (riskPercent params) (rewardRiskRatio params)"

definition notional_value :: "RouterRiskPhysics \<Rightarrow> TradeParams \<Rightarrow> InstrumentInfo \<Rightarrow> number" where
  "notional_value rp params info =
     roundQty (rp_positionSize rp) (qtyStep info) * roundPrice (currentPrice params) (tickSize info)"

definition effects_since :: "World \<Rightarrow> World \<Rightarrow> (Effect \<times> bool) list" where
  "effects_since w w1 = drop (length (trace w)) (trace w1)"

definition order_effect :: "Effect \<Rightarrow> bool" where
  "order_effect e = (case e of SetLeverage s l \<Rightarrow> True | PlaceOrder ex s sd q \<Rightarrow> True | _ \<Rightarrow> False)"

section \<open>Scenarios\<close>

text \<open>
  Concrete venues and states at which the properties below are evaluated: a router with a
  Bybit client only, an empty store, a protocol instance with the default configuration,
  and a venue with two open positions whose kline request fails for the first symbol.
\<close>

definition flat_candle :: Candle where
  "flat_candle = \<lparr>timestamp = Num 0, open = Num 100, high = Num 101, low = Num 99,
                   close = Num 100, volume = Num 1\<rparr>"

definition scenario_router :: ExecutionRouter where
  "scenario_router =
     \<lparr>routerConfig = \<lparr>defaultExchange = BYBIT, defaultLeverage = Num 10, defaultRiskPercent = Num 1,
                       defaultRewardRiskRatio = Num 2, routerMaxCapitalPerTrade = Num 100,
                       minCapitalRequired = Num 15\<rparr>,
      mexcClient = None, bybitClient = Some Map.empty, instrumentCache = Map.empty\<rparr>"

definition fresh_store :: BotStateManager where
  "fresh_store =
     \<lparr>status = Idle, activePositions = [], storeActivityLog = [],
      shutdownState = \<lparr>isShuttingDown = False, shutdownTimestamp = None, shutdownReason = None,
                         positionsBeforeShutdown = [], positionsUpdated = [], errors = [],
                         shutdownComplete = False\<rparr>\<rparr>"

definition scenario_world :: World where
  "scenario_world = \<lparr>router = scenario_router, botState = fresh_store, activityLogger = [], trace = []\<rparr>"

definition DEFAULT_CONFIG :: ImmortalExitConfig where
  "DEFAULT_CONFIG =
     \<lparr>exitExchange = BYBIT, defaultAtrMultiplierSL = Num (3 / 2),
      defaultAtrMultiplierTP = Num 2, maxRetries = 3, retryDelayMs = Num 1000\<rparr>"

definition fresh_protocol :: ImmortalExitProtocol where
  "fresh_protocol = \<lparr>guard = False, telegramBot = None, exitConfig = DEFAULT_CONFIG\<rparr>"


definition two_positions_venue :: Venue where
  "two_positions_venue =
     \<lparr>instruments_info = (\<lambda>t ex s. Inr []),
      venue_positions = (\<lambda>t ex. Inr
         [\<lparr>vsymbol = ''AAAUSDT'', vside = ''Buy'', amount = Num 1, ventryPrice = Num 100, unrealizedPnl = Num 0\<rparr>,
          \<lparr>vsymbol = ''BBBUSDT'', vside = ''Buy'', amount = Num 1, ventryPrice = Num 100, unrealizedPnl = Num 0\<rparr>]),
      klines = (\<lambda>t ex s. if s = ''AAAUSDT'' then Inl (Error ''request timed out'')
                          else Inr (replicate 15 flat_candle)),
      trading_stop = (\<lambda>t s tp sl. None),
      set_leverage = (\<lambda>t s l. None),
      place_order = (\<lambda>t ex s sd q tp sl. Inl (Error ''no orders'')),
      send_message = (\<lambda>t. None),
      message_wait = (\<lambda>t. None),
      new_id = (\<lambda>t s i. s)\<rparr>"

definition scenario_position :: "string \<Rightarrow> Position" where
  "scenario_position s =
     \<lparr>position_id = s, pos_symbol = s, exchange = BYBIT, side = LONG, position_size = Num 1,
      pos_entry_price = Num 100, pos_current_price = Some (Num 100), pos_leverage = Num 1,
      margin = Num 100, unrealized_pnl = Some (Num 0), stop_loss = None, take_profit = None\<rparr>"

definition failing_update_venue :: Venue where
  "failing_update_venue = two_positions_venue\<lparr>trading_stop := (\<lambda>t s tp sl. Some (Error ''rejected''))\<rparr>"


text \<open>
  A ranker without fees and with thresholds 0, and a signal with an expected move of 4
  per cent and no ATR, so that its risk is 2 per cent.
\<close>

definition ranker_config :: AlphaRankerConfig where
  "ranker_config =
     \<lparr>minEvScore = Num 0, minKellyScore = Num 0, rankerTakerFee = Num 0, slippageBuffer = Num 0\<rparr>"

definition ranker_signal :: "string \<Rightarrow> number \<Rightarrow> Signal" where
  "ranker_signal s w =
     \<lparr>symbol = s, strategy = ''MOMENTUM'', direction = LONG, win_probability = w,
      expected_move_pct = Num 4, entry_price = None, current_price = None, atr = None\<rparr>"

text \<open>
  A trade that passes risk validation, on a router whose default exchange is MEXC: once
  without a MEXC client, once with a client and a venue whose minimum notional is 100.
\<close>

definition mexc_config :: ExecutionRouterConfig where
  "mexc_config = \<lparr>defaultExchange = MEXC, defaultLeverage = Num 10, defaultRiskPercent = Num 1,
                   defaultRewardRiskRatio = Num 2, routerMaxCapitalPerTrade = Num 100,
                   minCapitalRequired = Num 15\<rparr>"

definition unconfigured_world :: World where
  "unconfigured_world =
     \<lparr>router = \<lparr>routerConfig = mexc_config, mexcClient = None, bybitClient = None,
                 instrumentCache = Map.empty\<rparr>,
      botState = fresh_store, activityLogger = [], trace = []\<rparr>"

definition mexc_world :: World where
  "mexc_world =
     \<lparr>router = \<lparr>routerConfig = mexc_config, mexcClient = Some Map.empty, bybitClient = None,
                 instrumentCache = Map.empty\<rparr>,
      botState = fresh_store, activityLogger = [], trace = []\<rparr>"

definition trade_params :: TradeParams where
  "trade_params =
     \<lparr>trade_signal = TradeLONG, trade_symbol = ''BTCUSDT'', currentPrice = Num 100,
      trade_atr = Num 40, walletBalance = Num 3000, trade_leverage = Some (Num 1),
      riskPercent = None, rewardRiskRatio = None\<rparr>"

definition strict_instrument :: InstrumentInfo where
  "strict_instrument = \<lparr>tickSize = Num (1 / 100), qtyStep = Num (1 / 1000), minNotional = Num 100\<rparr>"

definition strict_venue :: Venue where
  "strict_venue = two_positions_venue\<lparr>instruments_info := (\<lambda>t ex s. Inr [(s, strict_instrument)])\<rparr>"

definition trade_risk :: RouterRiskPhysics where
  "trade_risk =
     \<lparr>rp_entryPrice = Num 100, stopLoss = Num 40, takeProfit = Num 220, rp_positionSize = Num (1 / 2),
      positionValue = Num 50, riskAmount = Num 30, rewardAmount = Num 60, rp_riskPercent = Num 1,
      rp_leverage = Num 1, liquidationPrice = Num 10, isValid = True, validationErrors = []\<rparr>"

section \<open>Properties\<close>

lemma ceiling_neg_log10:
  fixes s :: real
  assumes "0 < s" and "10 powr (- real_of_int p) \<le> s" and "s < 10 powr (1 - real_of_int p)"
  shows "\<lceil>- log 10 s\<rceil> = p"
proof -
  have "- real_of_int p \<le> log 10 s"
    using assms(1,2) by (simp add: le_log_iff)
  moreover have "log 10 s < 1 - real_of_int p"
    using assms(1,3) by (simp add: log_less_iff)
  ultimately show ?thesis
    by (simp add: ceiling_eq_iff)
qed

lemma precision_quarter: "\<lceil>- log 10 (1 / 4 :: real)\<rceil> = 1"
  by (rule ceiling_neg_log10) (simp_all add: powr_minus)

lemma lt_irrefl: "\<not> (x::number) < x"
  by (cases x) (simp_all add: less_number_def)

lemma not_lt_le: "x \<noteq> NaN \<Longrightarrow> y \<noteq> NaN \<Longrightarrow> \<not> x < y \<Longrightarrow> y \<le> (x::number)"
  by (cases x; cases y) (auto simp: less_number_def less_eq_number_def)

lemma lt_le: "x < y \<Longrightarrow> x \<le> (y::number)"
  by (simp add: less_eq_number_def less_number_def)

lemma le_trans_number: "x \<le> y \<Longrightarrow> y \<le> z \<Longrightarrow> x \<le> (z::number)"
  by (cases x; cases y; cases z) (auto simp: less_number_def less_eq_number_def)

lemma le_not_NaN: "(x::number) \<le> y \<Longrightarrow> y \<noteq> NaN"
  by (cases x; cases y) (auto simp: less_eq_number_def less_number_def)

lemma set_insert_sorted: "set (insert_sorted c x ys) = insert x (set ys)"
  by (induction ys) auto

lemma mset_insert_sorted: "mset (insert_sorted c x ys) = add_mset x (mset ys)"
  by (induction ys) auto

lemma mset_Array_sort: "mset (Array_sort c xs) = mset xs"
  by (induction xs) (simp_all add: Array_sort_def mset_insert_sorted)

lemma set_Array_sort: "set (Array_sort c xs) = set xs"
  using mset_Array_sort [of c xs] by (metis set_mset_mset)

lemma filter_insert_sorted:
  assumes "\<And>a b. Num 0 < c a b \<Longrightarrow> f a \<noteq> f b"
  shows "filter (\<lambda>s. f s = k) (insert_sorted c x ys) = filter (\<lambda>s. f s = k) (x # ys)"
  using assms by (induction ys) auto

lemma filter_Array_sort:
  assumes "\<And>a b. Num 0 < c a b \<Longrightarrow> f a \<noteq> f b"
  shows "filter (\<lambda>s. f s = k) (Array_sort c xs) = filter (\<lambda>s. f s = k) xs"
proof (induction xs)
  case Nil
  show ?case by (simp add: Array_sort_def)
next
  case (Cons x xs)
  have "filter (\<lambda>s. f s = k) (Array_sort c (x # xs))
        = filter (\<lambda>s. f s = k) (x # Array_sort c xs)"
    unfolding Array_sort_def foldr.simps o_apply
    by (rule filter_insert_sorted) (rule assms)
  with Cons show ?case by simp
qed

lemma sorted_insert_sorted:
  assumes c: "\<And>a b. Num 0 < c a b \<longleftrightarrow> f a < f b"
    and x: "f x \<noteq> NaN" and ys: "\<forall>y\<in>set ys. f y \<noteq> NaN"
    and sorted: "sorted_wrt (\<lambda>a b. f b \<le> f a) ys"
  shows "sorted_wrt (\<lambda>a b. f b \<le> f a) (insert_sorted c x ys)"
  using ys sorted
proof (induction ys)
  case Nil
  show ?case by simp
next
  case (Cons y ys)
  show ?case
  proof (cases "Num 0 < c x y")
    case True
    then have "f x < f y" by (simp add: c)
    then have "f x \<le> f y" by (rule lt_le)
    with Cons True show ?thesis
      by (auto simp: set_insert_sorted)
  next
    case False
    then have "\<not> f x < f y" by (simp add: c)
    with x Cons.prems(1) have le: "f y \<le> f x" by (simp add: not_lt_le)
    have "\<forall>z\<in>set ys. f z \<le> f x"
      using Cons.prems(2) le by (auto intro: le_trans_number)
    with False le Cons.prems(2) show ?thesis by simp
  qed
qed

lemma sorted_Array_sort:
  assumes c: "\<And>a b. Num 0 < c a b \<longleftrightarrow> f a < f b" and xs: "\<forall>y\<in>set xs. f y \<noteq> NaN"
  shows "sorted_wrt (\<lambda>a b. f b \<le> f a) (Array_sort c xs)"
  using xs
proof (induction xs)
  case Nil
  show ?case by (simp add: Array_sort_def)
next
  case (Cons x xs)
  have "sorted_wrt (\<lambda>a b. f b \<le> f a) (insert_sorted c x (Array_sort c xs))"
    using Cons by (intro sorted_insert_sorted c) (simp_all add: set_Array_sort)
  then show ?case by (simp add: Array_sort_def)
qed

lemma clamp_quarter: "0 \<le> max 0 (min (1 / 4) (h::real)) \<and> max 0 (min (1 / 4) h) \<le> 1 / 4"
  by (auto simp: max_def min_def)

lemma clamp_bounds:
  assumes "x \<noteq> NaN"
  shows "\<exists>k. Math_max (Num 0) (Math_min (Num (25 / 100)) x) = Num k \<and> 0 \<le> k \<and> k \<le> 1 / 4"
proof (cases x)
  case (Num a)
  have "Math_max (Num 0) (Math_min (Num (25 / 100)) (Num a)) = Num (max 0 (min (1 / 4) a))"
    by (simp add: Math_max_def Math_min_def less_number_def max_def min_def)
  with Num clamp_quarter [of a] show ?thesis by blast
next
  case Infinity
  then have "Math_max (Num 0) (Math_min (Num (25 / 100)) x) = Num (1 / 4)"
    by (simp add: Math_max_def Math_min_def less_number_def)
  then show ?thesis by (intro exI [of _ "1 / 4"]) simp
next
  case NegInfinity
  then have "Math_max (Num 0) (Math_min (Num (25 / 100)) x) = Num 0"
    by (simp add: Math_max_def Math_min_def less_number_def)
  then show ?thesis by simp
next
  case NaN
  with assms show ?thesis by simp
qed

lemma clamp_NaN: "Math_max (Num 0) (Math_min (Num (25 / 100)) NaN) = NaN"
  by (simp add: Math_max_def Math_min_def)

subsection \<open>Rounding to binary64\<close>

lemma rne_ge: "of_int k \<le> t \<Longrightarrow> k \<le> rne t"
  using le_floor_iff [of k t] by (auto simp: rne_def Let_def)

lemma rne_le: "t \<le> of_int k \<Longrightarrow> rne t \<le> k"
proof -
  assume le: "t \<le> of_int k"
  show ?thesis
  proof (cases "t = of_int k")
    case True
    then show ?thesis by (simp add: rne_def)
  next
    case False
    with le have "t < of_int k" by simp
    then have "\<lfloor>t\<rfloor> < k"
      by (simp only: floor_less_iff)
    then have "\<lfloor>t\<rfloor> + 1 \<le> k"
      by simp
    then show ?thesis
      by (auto simp: rne_def Let_def)
  qed
qed

lemma rne_of_int: "rne (of_int k) = k"
  by (simp add: rne_def)

lemma rne_minus: "rne (- t) = - rne t"
proof (cases "t = of_int \<lfloor>t\<rfloor>")
  case True
  then have "rne t = \<lfloor>t\<rfloor>" and "rne (- t) = - \<lfloor>t\<rfloor>"
    using rne_of_int [of "\<lfloor>t\<rfloor>"] rne_of_int [of "- \<lfloor>t\<rfloor>"] by simp_all
  then show ?thesis by simp
next
  case False
  with of_int_floor_le [of t] have "of_int \<lfloor>t\<rfloor> < t"
    by linarith
  then have f: "\<lfloor>- t\<rfloor> = - \<lfloor>t\<rfloor> - 1"
    using floor_correct [of t] by (intro floor_unique) (simp_all, linarith)
  show ?thesis
    unfolding rne_def Let_def f
    by (auto simp: algebra_simps)
qed

lemma ulp_pos: "0 < ulp x"
  by (simp add: ulp_def)

lemma exponent_ge: "- 1022 \<le> exponent x"
  by (simp add: exponent_def)

lemma powr_powi: "(2::real) powr real_of_int k = 2 powi k"
  by (rule powr_real_of_int') simp_all

lemma floor_log2:
  assumes "0 < y"
  shows "2 powi \<lfloor>log 2 y\<rfloor> \<le> y" and "y < 2 powi (\<lfloor>log 2 y\<rfloor> + 1)"
  using floor_log_eq_powr_iff [THEN iffD1, OF assms _ refl, of 2]
  unfolding powr_powi by simp_all

lemma floor_log2_eq:
  assumes "2 powi k \<le> y" and "y < 2 powi (k + 1)"
  shows "\<lfloor>log 2 y\<rfloor> = k"
proof -
  have "0 < y"
    using assms(1) zero_less_power_int [of "2::real" k] by linarith
  then show ?thesis
    using floor_log_eq_powr_iff [THEN iffD2, of y 2 k] assms
    unfolding powr_powi by simp
qed

lemma exponent_upper: "x \<noteq> 0 \<Longrightarrow> \<bar>x\<bar> < 2 powi (exponent x + 1)"
proof -
  assume "x \<noteq> 0"
  then have "\<bar>x\<bar> < 2 powi (\<lfloor>log 2 \<bar>x\<bar>\<rfloor> + 1)"
    by (simp add: floor_log2)
  also have "\<dots> \<le> 2 powi (exponent x + 1)"
    by (rule power_int_increasing) (simp_all add: exponent_def)
  finally show ?thesis .
qed

lemma exponent_lower: "x \<noteq> 0 \<Longrightarrow> exponent x \<noteq> - 1022 \<Longrightarrow> 2 powi exponent x \<le> \<bar>x\<bar>"
proof -
  assume "x \<noteq> 0" and e: "exponent x \<noteq> - 1022"
  from e have eq: "exponent x = \<lfloor>log 2 \<bar>x\<bar>\<rfloor>"
    by (simp add: exponent_def max_def split: if_splits)
  show ?thesis
    using \<open>x \<noteq> 0\<close> by (simp add: eq floor_log2)
qed

lemma exponent_eq:
  assumes "2 powi k \<le> \<bar>x\<bar>" and "\<bar>x\<bar> < 2 powi (k + 1)" and "- 1022 \<le> k"
  shows "exponent x = k"
  using floor_log2_eq [OF assms(1,2)] assms(3) by (simp add: exponent_def)


lemma two_powi_add: "(2::real) powi (a + b) = 2 powi a * 2 powi b"
  by (simp add: power_int_add)

lemma two_powi_nat: "0 \<le> d \<Longrightarrow> (2::real) powi d = 2 ^ nat d"
  by (simp add: power_int_def)

lemma two_powi_split: "e \<le> E \<Longrightarrow> (2::real) powi (E - 52) = of_int (2 ^ nat (E - e)) * 2 powi (e - 52)"
  using two_powi_add [of "E - e" "e - 52"] by (simp add: two_powi_nat)

lemma two_powi_52: "(2::real) powi e = 2 ^ 52 * 2 powi (e - 52)"
  using two_powi_add [of 52 "e - 52"] by simp

lemma two_powi_53: "(2::real) powi (E + 1) = 2 ^ 53 * 2 powi (E - 52)"
  using two_powi_add [of 53 "E - 52"] by (simp add: add.commute)

lemma ulp_minus: "ulp (- x) = ulp x"
  by (simp add: ulp_def exponent_def)

lemma binary64_minus: "binary64 (- x) = - binary64 x"
  by (simp add: binary64_def ulp_minus rne_minus Let_def)

lemma binary64_pos_eq:
  "0 < y \<Longrightarrow> binary64 y = (if 2 ^ 1024 \<le> of_int (rne (y / ulp y)) * ulp y then Infinity
                              else Num (of_int (rne (y / ulp y)) * ulp y))"
  "0 < y \<Longrightarrow> 0 \<le> rne (y / ulp y)"
proof -
  assume y: "0 < y"
  then have "of_int 0 \<le> y / ulp y"
    using ulp_pos [of y] by simp
  then show r: "0 \<le> rne (y / ulp y)"
    by (rule rne_ge)
  then have "0 \<le> of_int (rne (y / ulp y)) * ulp y"
    using ulp_pos [of y] by simp
  then show "binary64 y = (if 2 ^ 1024 \<le> of_int (rne (y / ulp y)) * ulp y then Infinity
                              else Num (of_int (rne (y / ulp y)) * ulp y))"
    using y by (simp add: binary64_def Let_def)
qed

lemma round_ge:
  assumes m: "m \<le> 2 ^ 53" and E: "- 1022 \<le> E"
    and zy: "of_int m * 2 powi (E - 52) \<le> y" and y: "0 < y"
  shows "of_int m * 2 powi (E - 52) \<le> of_int (rne (y / ulp y)) * ulp y"
proof -
  define e where "e = exponent y"
  define q where "q = ulp y"
  have q: "0 < q" "q = 2 powi (e - 52)"
    by (simp_all add: q_def ulp_def e_def)
  show ?thesis
  proof (cases "e \<le> E")
    case True
    define K where "K = m * 2 ^ nat (E - e)"
    have z: "of_int m * 2 powi (E - 52) = of_int K * q"
      by (simp add: K_def q(2) two_powi_split [OF True])
    with zy q(1) have "of_int K \<le> y / q"
      by (simp add: pos_le_divide_eq)
    then have "K \<le> rne (y / q)"
      by (rule rne_ge)
    then have "of_int K * q \<le> of_int (rne (y / q)) * q"
      using q(1) by simp
    with z show ?thesis
      by (simp add: q_def)
  next
    case False
    with E have e: "exponent y \<noteq> - 1022" "E + 1 \<le> e"
      by (simp_all add: e_def)
    from y e(1) have "2 powi e \<le> y"
      using exponent_lower [of y] by (simp add: e_def)
    then have "of_int (2 ^ 52) \<le> y / q"
      using q(1) by (simp add: pos_le_divide_eq q(2) two_powi_52 [of e])
    then have "2 ^ 52 \<le> rne (y / q)"
      by (rule rne_ge)
    then have "of_int (2 ^ 52) * q \<le> of_int (rne (y / q)) * q"
      using q(1) by (simp only: mult_le_cancel_right_pos of_int_le_iff)
    then have "2 powi e \<le> of_int (rne (y / q)) * q"
      by (simp add: q(2) two_powi_52 [of e])
    moreover have "(2::real) powi (E + 1) \<le> 2 powi e"
      using e(2) by (intro power_int_increasing) simp_all
    moreover have "of_int m * 2 powi (E - 52) \<le> (2::real) powi (E + 1)"
    proof -
      have "real_of_int m \<le> 2 ^ 53"
        using m by (metis of_int_le_iff of_int_numeral of_int_power)
      then show ?thesis
        by (simp add: two_powi_53)
    qed
    ultimately show ?thesis
      by (simp add: q_def)
  qed
qed

lemma round_le:
  assumes m: "m \<le> 2 ^ 53" and E: "- 1022 \<le> E"
    and yz: "y \<le> of_int m * 2 powi (E - 52)" and y: "0 < y"
  shows "of_int (rne (y / ulp y)) * ulp y \<le> of_int m * 2 powi (E - 52)"
proof -
  define e where "e = exponent y"
  define q where "q = ulp y"
  have q: "0 < q" "q = 2 powi (e - 52)"
    by (simp_all add: q_def ulp_def e_def)
  show ?thesis
  proof (cases "e \<le> E")
    case True
    define K where "K = m * 2 ^ nat (E - e)"
    have z: "of_int m * 2 powi (E - 52) = of_int K * q"
      by (simp add: K_def q(2) two_powi_split [OF True])
    with yz q(1) have "y / q \<le> of_int K"
      by (simp add: pos_divide_le_eq)
    then have "rne (y / q) \<le> K"
      by (rule rne_le)
    then have "of_int (rne (y / q)) * q \<le> of_int K * q"
      using q(1) by simp
    with z show ?thesis
      by (simp add: q_def)
  next
    case False
    with E have e: "exponent y \<noteq> - 1022" "E + 1 \<le> e"
      by (simp_all add: e_def)
    from y e(1) have low: "2 powi e \<le> y"
      using exponent_lower [of y] by (simp add: e_def)
    have "(2::real) powi (E + 1) \<le> 2 powi e"
      using e(2) by (intro power_int_increasing) simp_all
    moreover have "of_int m * 2 powi (E - 52) \<le> (2::real) powi (E + 1)"
    proof -
      have "real_of_int m \<le> 2 ^ 53"
        using m by (metis of_int_le_iff of_int_numeral of_int_power)
      then show ?thesis
        by (simp add: two_powi_53)
    qed
    ultimately have eq: "y = 2 powi e" "of_int m * 2 powi (E - 52) = y"
      using low yz by linarith+
    have "y / q = of_int (2 ^ 52)"
      using q(1) by (simp add: eq(1) q(2) two_powi_52 [of e])
    then have "rne (y / q) = 2 ^ 52"
      by (simp only: rne_of_int)
    then have "of_int (rne (y / q)) * q = y"
      by (simp add: eq(1) q(2) two_powi_52 [of e])
    with eq(2) show ?thesis
      by (simp add: q_def)
  qed
qed


lemma Num_le [simp]: "Num a \<le> Num b \<longleftrightarrow> a \<le> b"
  by (auto simp: less_eq_number_def)

lemma Num_less [simp]: "Num a < Num b \<longleftrightarrow> a < b"
  by (simp add: less_number_def)

lemma Num_Infinity [simp]: "Num a < Infinity" "Num a \<le> Infinity" "NegInfinity < Num a" "NegInfinity \<le> Num a"
  by (simp_all add: less_number_def less_eq_number_def)

lemma binary64_ge:
  assumes "m \<le> 2 ^ 53" and "- 1022 \<le> E" and "of_int m * 2 powi (E - 52) \<le> y" and "0 < y"
  shows "Num (of_int m * 2 powi (E - 52)) \<le> binary64 y"
  using round_ge [OF assms] by (simp add: binary64_pos_eq(1) [OF assms(4)])

lemma binary64_le:
  assumes "m \<le> 2 ^ 53" and "- 1022 \<le> E" and "y \<le> of_int m * 2 powi (E - 52)" and "0 < y"
    and "of_int m * 2 powi (E - 52) < (2::real) ^ 1024"
  shows "binary64 y \<le> Num (of_int m * 2 powi (E - 52))"
  using round_le [OF assms(1-4)] assms(5) by (simp add: binary64_pos_eq(1) [OF assms(4)])

lemma binary64_nonpos: "y \<le> 0 \<Longrightarrow> binary64 y \<le> Num 0"
proof (cases "y = 0")
  case True
  then show ?thesis by (simp add: binary64_def)
next
  case False
  assume "y \<le> 0"
  with False have "0 < - y" by simp
  from binary64_pos_eq [OF this] have "binary64 (- y) = Infinity \<or> (\<exists>r. binary64 (- y) = Num r \<and> 0 \<le> r)"
    using ulp_pos [of "- y"] by (auto simp: zero_le_mult_iff)
  then show ?thesis
    using binary64_minus [of "- y"] by auto
qed

lemma binary64_exact:
  assumes "m \<le> 2 ^ 53" and "- 1022 \<le> E" and "0 < m"
    and "of_int m * 2 powi (E - 52) < (2::real) ^ 1024"
  shows "binary64 (of_int m * 2 powi (E - 52)) = Num (of_int m * 2 powi (E - 52))"
proof -
  let ?x = "of_int m * 2 powi (E - 52) :: real"
  have pos: "0 < ?x"
    using assms(3) by simp
  have "of_int (rne (?x / ulp ?x)) * ulp ?x = ?x"
    using round_ge [OF assms(1,2) order_refl pos] round_le [OF assms(1,2) order_refl pos]
    by linarith
  then show ?thesis
    using assms(4) by (simp add: binary64_pos_eq(1) [OF pos])
qed

lemma binary64_repr:
  assumes "binary64 x = Num x" and "0 < x"
  obtains m where "x = of_int m * 2 powi (exponent x - 52)" and "0 < m" and "m < 2 ^ 53"
    and "x < 2 ^ 1024"
proof -
  define m where "m = rne (x / ulp x)"
  have q: "0 < ulp x" by (rule ulp_pos)
  from assms have r: "of_int m * ulp x = x" and fin: "x < 2 ^ 1024"
    by (auto simp: binary64_pos_eq(1) m_def split: if_splits)
  have "0 < real_of_int m * ulp x"
    using r assms(2) by simp
  with q have m0: "0 < m"
    by (simp add: zero_less_mult_iff)
  have "x < 2 powi (exponent x + 1)"
    using exponent_upper [of x] assms(2) by simp
  then have "x < 2 ^ 53 * ulp x"
    by (simp add: ulp_def two_powi_53)
  then have "real_of_int m * ulp x < 2 ^ 53 * ulp x"
    by (simp only: r)
  then have "real_of_int m < 2 ^ 53"
    using q by (simp only: mult_less_cancel_right_pos)
  then have "m < 2 ^ 53"
    by (metis of_int_less_iff of_int_numeral of_int_power)
  with r m0 fin show ?thesis
    by (intro that [of m]) (simp_all add: ulp_def)
qed

lemma binary64_add_ge:
  assumes "binary64 x = Num x" and "0 < x" and "0 \<le> r"
  shows "Num x \<le> binary64 (x + r)"
proof -
  from assms(1,2) obtain m where m: "x = of_int m * 2 powi (exponent x - 52)" "m < 2 ^ 53"
    by (rule binary64_repr)
  have "Num (of_int m * 2 powi (exponent x - 52)) \<le> binary64 (x + r)"
    using m assms(2,3) by (intro binary64_ge exponent_ge) simp_all
  with m(1) show ?thesis by simp
qed

lemma binary64_add_gt:
  assumes "binary64 x = Num x" and "0 < x" and "ulp x \<le> r"
  shows "Num x < binary64 (x + r)"
proof -
  from assms(1,2) obtain m where m: "x = of_int m * 2 powi (exponent x - 52)" "m < 2 ^ 53"
    by (rule binary64_repr)
  have r: "0 < r"
    using ulp_pos [of x] assms(3) by linarith
  have "of_int (m + 1) * 2 powi (exponent x - 52) = x + ulp x"
    using m(1) by (simp add: ulp_def algebra_simps)
  moreover have "Num (of_int (m + 1) * 2 powi (exponent x - 52)) \<le> binary64 (x + r)"
    using m assms(2,3) r calculation by (intro binary64_ge exponent_ge) simp_all
  ultimately have "Num (x + ulp x) \<le> binary64 (x + r)"
    by simp
  then show ?thesis
    using ulp_pos [of x] by (cases "binary64 (x + r)") (auto simp: less_eq_number_def less_number_def)
qed

lemma binary64_sub_le:
  assumes "binary64 x = Num x" and "0 < x" and "0 \<le> r"
  shows "binary64 (x - r) \<le> Num x"
proof (cases "0 < x - r")
  case True
  from assms(1,2) obtain m where m: "x = of_int m * 2 powi (exponent x - 52)" "m < 2 ^ 53" "x < 2 ^ 1024"
    by (rule binary64_repr)
  have "binary64 (x - r) \<le> Num (of_int m * 2 powi (exponent x - 52))"
    using m assms(3) True by (intro binary64_le exponent_ge) simp_all
  with m(1) show ?thesis by simp
next
  case False
  then have "binary64 (x - r) \<le> Num 0"
    by (intro binary64_nonpos) simp
  then show ?thesis
    using assms(2) by (cases "binary64 (x - r)") (auto simp: less_eq_number_def less_number_def)
qed

lemma binary64_sub_lt:
  assumes "binary64 x = Num x" and "0 < x" and "ulp x \<le> r"
  shows "binary64 (x - r) < Num x"
proof (cases "0 < x - r")
  case True
  from assms(1,2) obtain m where m: "x = of_int m * 2 powi (exponent x - 52)" "m < 2 ^ 53"
      "x < 2 ^ 1024" "0 < m"
    by (rule binary64_repr)
  have eq: "of_int (m - 1) * 2 powi (exponent x - 52) = x - ulp x"
    using m(1) by (simp add: ulp_def algebra_simps)
  have "binary64 (x - r) \<le> Num (of_int (m - 1) * 2 powi (exponent x - 52))"
    using m assms(3) True eq ulp_pos [of x] by (intro binary64_le exponent_ge) simp_all
  with eq have "binary64 (x - r) \<le> Num (x - ulp x)"
    by simp
  then show ?thesis
    using ulp_pos [of x] by (cases "binary64 (x - r)") (auto simp: less_eq_number_def less_number_def)
next
  case False
  then have "binary64 (x - r) \<le> Num 0"
    by (intro binary64_nonpos) simp
  then show ?thesis
    using assms(2) by (cases "binary64 (x - r)") (auto simp: less_eq_number_def less_number_def)
qed


lemma binary64_eval:
  assumes "2 powi k \<le> \<bar>x\<bar>" and "\<bar>x\<bar> < 2 powi (k + 1)" and "- 1022 \<le> k"
  shows "binary64 x =
     (let r = of_int (rne (x / 2 powi (k - 52))) * 2 powi (k - 52)
      in if 2 ^ 1024 \<le> \<bar>r\<bar> then (if 0 < x then Infinity else NegInfinity) else Num r)"
proof -
  have "0 < \<bar>x\<bar>"
    using assms(1) zero_less_power_int [of "2::real" k] by linarith
  then have "x \<noteq> 0"
    by simp
  then show ?thesis
    by (simp add: binary64_def ulp_def exponent_eq [OF assms])
qed

lemma binary64_of_int:
  assumes "0 < n" and "n \<le> 2 ^ 53"
  shows "binary64 (of_int n) = Num (of_int n)"
proof -
  have "real_of_int n \<le> 2 ^ 53"
    using assms(2) by (metis of_int_le_iff of_int_numeral of_int_power)
  then have "real_of_int n < 2 ^ 1024"
    by (rule order_le_less_trans) simp
  then show ?thesis
    using binary64_exact [of n 52] assms by simp
qed

lemma binary64_numeral [simp]:
  "numeral n \<le> (2 ^ 53 :: int) \<Longrightarrow> binary64 (numeral n) = Num (numeral n)"
  using binary64_of_int [of "numeral n"] by simp

lemma binary64_zero [simp]: "binary64 0 = Num 0"
  by (simp add: binary64_def)

lemma binary64_one [simp]: "binary64 1 = Num 1"
  using binary64_of_int [of 1] by simp

lemma binary64_pos_cases:
  assumes "0 < y"
  shows "binary64 y = Infinity \<or> (\<exists>r. binary64 y = Num r \<and> 0 \<le> r)"
  using binary64_pos_eq [OF assms] ulp_pos [of y] by (auto simp: zero_le_mult_iff)

lemma rnd_simps [simp]:
  "rnd (Num x) = binary64 x" "rnd Infinity = Infinity" "rnd NegInfinity = NegInfinity" "rnd NaN = NaN"
  by (simp_all add: rnd_def)

lemma binary64_not_NaN [simp]: "binary64 x \<noteq> NaN"
  by (simp add: binary64_def Let_def)

lemma binary64_grid: "binary64 x = Num r \<Longrightarrow> \<exists>n. r = of_int n * 2 powi (- 1074)"
proof (cases "x = 0")
  case True
  assume "binary64 x = Num r"
  with True have "r = 0" by simp
  then have "r = of_int 0 * 2 powi (- 1074)" by (simp only: of_int_0 mult_zero_left)
  then show ?thesis ..
next
  case False
  assume "binary64 x = Num r"
  with False have r: "r = of_int (rne (x / ulp x)) * ulp x"
    by (simp add: binary64_def Let_def split: if_splits)
  have e: "exponent x - 52 = (exponent x + 1022) + (- 1074)"
    by simp
  have "ulp x = 2 powi (exponent x + 1022) * 2 powi (- 1074)"
    unfolding ulp_def by (subst e) (rule two_powi_add)
  also have "2 powi (exponent x + 1022) = real_of_int (2 ^ nat (exponent x + 1022))"
    using exponent_ge [of x] by (simp add: two_powi_nat)
  finally have "r = of_int (rne (x / ulp x) * 2 ^ nat (exponent x + 1022)) * 2 powi (- 1074)"
    by (simp only: r of_int_mult mult.assoc)
  then show ?thesis ..
qed

lemma binary64_diff_pos:
  assumes "binary64 x = Num a" and "binary64 y = Num b"
  shows "Num 0 < binary64 (a - b) \<longleftrightarrow> b < a"
proof (cases "b < a")
  case True
  define g where "g = (2::real) powi (- 1074)"
  have g: "0 < g"
    unfolding g_def by (rule zero_less_power_int) simp
  from assms obtain n k where n: "a = of_int n * g" and k: "b = of_int k * g"
    unfolding g_def using binary64_grid by blast
  with True g have "real_of_int k < real_of_int n"
    by (simp only: mult_less_cancel_right_pos)
  then have "of_int 1 \<le> real_of_int (n - k)"
    by (simp only: of_int_le_iff of_int_less_iff)
  then have "of_int 1 * g \<le> real_of_int (n - k) * g"
    using g by (simp only: mult_le_cancel_right_pos)
  also have "real_of_int (n - k) * g = a - b"
    by (simp only: n k of_int_diff left_diff_distrib)
  finally have "of_int 1 * 2 powi (- 1022 - 52) \<le> a - b"
    by (simp add: g_def)
  then have "Num (of_int 1 * 2 powi (- 1022 - 52)) \<le> binary64 (a - b)"
    using True by (intro binary64_ge) simp_all
  moreover have "0 < of_int 1 * (2::real) powi (- 1022 - 52)"
    by (simp only: of_int_1 mult_1 zero_less_power_int zero_less_numeral)
  ultimately have "Num 0 < binary64 (a - b)"
    by (cases "binary64 (a - b)") (auto simp only: Num_le Num_less Num_Infinity less_eq_number_def less_number_def lt.simps number.simps)
  with True show ?thesis by simp
next
  case False
  then have "binary64 (a - b) \<le> Num 0"
    by (intro binary64_nonpos) simp
  then have "\<not> Num 0 < binary64 (a - b)"
    by (cases "binary64 (a - b)") (auto simp: less_eq_number_def less_number_def)
  with False show ?thesis by simp
qed

lemma fsub_pos_iff: "Num 0 < fsub (rnd u) (rnd v) \<longleftrightarrow> rnd v < rnd u"
proof (cases "\<exists>a b. rnd u = Num a \<and> rnd v = Num b")
  case True
  then obtain a b where ab: "rnd u = Num a" "rnd v = Num b"
    by blast
  from ab(1) obtain x where x: "binary64 x = Num a"
    by (cases u; simp)
  from ab(2) obtain y where y: "binary64 y = Num b"
    by (cases v; simp)
  show ?thesis
    using binary64_diff_pos [OF x y] by (simp add: ab fsub_def minus_number_def)
next
  case False
  then show ?thesis
    by (cases "rnd u"; cases "rnd v") (simp_all add: fsub_def minus_number_def less_number_def)
qed


lemma binary64_bounded:
  assumes "0 \<le> y" and "y \<le> of_int m * 2 powi (E - 52)" and "m \<le> 2 ^ 53" and "- 1022 \<le> E"
    and "of_int m * 2 powi (E - 52) < (2::real) ^ 1024"
  shows "\<exists>r. binary64 y = Num r \<and> 0 \<le> r \<and> r \<le> of_int m * 2 powi (E - 52)"
proof (cases "y = 0")
  case True
  with assms(1,2) show ?thesis by simp
next
  case False
  with assms(1) have y: "0 < y" by simp
  from binary64_le [OF assms(3,4,2) y assms(5)] binary64_pos_cases [OF y]
  show ?thesis
    by (auto simp: less_eq_number_def less_number_def)
qed

lemma binary64_le_32: "0 \<le> y \<Longrightarrow> y \<le> 32 \<Longrightarrow> \<exists>r. binary64 y = Num r \<and> 0 \<le> r \<and> r \<le> 32"
  using binary64_bounded [of y "2 ^ 52" 5] by (simp add: power_int_minus)

lemma binary64_le_1: "0 \<le> y \<Longrightarrow> y \<le> 1 \<Longrightarrow> \<exists>r. binary64 y = Num r \<and> 0 \<le> r \<and> r \<le> 1"
  using binary64_bounded [of y "2 ^ 52" 0] by (simp add: power_int_minus)

lemma binary64_6_10: "\<exists>p. binary64 (6 / 10) = Num p \<and> 0 < p"
proof -
  have "Num (of_int (2 ^ 52) * 2 powi (- 1 - 52)) \<le> binary64 (6 / 10)"
    by (intro binary64_ge) (simp_all add: power_int_minus)
  then have "Num (1 / 2) \<le> binary64 (6 / 10)"
    by (simp add: power_int_minus)
  moreover obtain r where "binary64 (6 / 10) = Num r"
    using binary64_le_1 [of "6 / 10"] by auto
  ultimately show ?thesis by auto
qed

lemma rnd_not_NaN: "x \<noteq> NaN \<Longrightarrow> rnd x \<noteq> NaN"
  by (cases x) simp_all

lemma binary64_half: "binary64 (1 / 2) = Num (1 / 2)" "binary64 (1 / 4) = Num (1 / 4)"
  using binary64_exact [of 1 51] binary64_exact [of 1 50] by (simp_all add: power_int_minus)

lemma binary64_neg_numeral:
  "numeral n \<le> (2 ^ 53 :: int) \<Longrightarrow> binary64 (- numeral n) = Num (- numeral n)"
  by (simp add: binary64_minus)

subsection \<open>Market statistics\<close>

text \<open>
  C5. Rounding a quantity down to the step is meant never to exceed the quantity. With the
  step 0.25 the digit count derived from the step is 1, and the final \<open>toFixed\<close> turns
  the correctly floored 0.75 into 0.8, above the quantity 0.76.
\<close>

theorem round_to_qty_step_down_exceeds:
  "round_to_qty_step (Num (76 / 100)) (Num (1 / 4)) Down = Inr (Num (8 / 10))
   \<and> \<not> (Num (8 / 10) \<le> Num (76 / 100))"
  by (simp add: round_to_qty_step_def toFixed_def ToIntegerOrInfinity_def Math_max_def
      less_number_def less_eq_number_def precision_quarter)

text \<open>
  C10. With fewer than \<open>period + 1\<close> candles \<open>calculate_atr\<close> returns 0.
\<close>

theorem calculate_atr_insufficient:
  "1 \<le> period \<Longrightarrow> length candles < period + 1 \<Longrightarrow> calculate_atr candles period = Num 0"
  by (simp add: calculate_atr_def)

theorem calculate_atr_insufficient_witness:
  "(1::nat) \<le> 14 \<and> length ([] :: Candle list) < 14 + 1 \<and> calculate_atr [] 14 = Num 0"
  using calculate_atr_insufficient [of 14 "[]"] by simp

subsection \<open>Risk Physics\<close>

text \<open>
  C3. The position value is meant to stay within the capital per trade. The quantity is
  capped at \<open>maxCapital / currentPrice\<close> and then rounded down to the step, but
  with the step 0.25 the rounding returns 0.8 for the cap 0.75 (see C5), and the position
  value is 16 against a capital of 15.
\<close>

theorem calculate_position_size_exceeds_capital:
  "calculate_position_size DEFAULT_RISK_PHYSICS_CONFIG
     \<lparr>symbol = ''BTCUSDT'', strategy = ''MOMENTUM'', direction = LONG, win_probability = Num (6 / 10),
      expected_move_pct = Num 2, entry_price = None, current_price = Some (Num 20), atr = Some (Num (1 / 6))\<rparr>
     \<lparr>entryPrice = Num 20, takeProfitPrice = Num (61 / 3), stopLossPrice = Num (1975 / 100),
      breakEvenPrice = Num (20022 / 1000), riskRewardRatio = Num (4 / 3), atrMultiplier = Num (3 / 2)\<rparr>
     (Num (1 / 100)) (Num (1 / 4))
   = Inr \<lparr>capital = Num 15, positionSize = Num 16, quantity = Num (8 / 10), leverage = Num 2\<rparr>
   \<and> \<not> (Num 16 \<le> maxCapitalPerTrade DEFAULT_RISK_PHYSICS_CONFIG)"
  by (simp add: calculate_position_size_def DEFAULT_RISK_PHYSICS_CONFIG_def nullish_def Let_def
      minus_number_def Math_min_def Math_max_def less_number_def less_eq_number_def
      round_to_qty_step_def toFixed_def ToIntegerOrInfinity_def precision_quarter)

lemma fmul_pos:
  assumes "Num 0 < a" and "Num 0 < m"
  shows "fmul a m = Infinity \<or> (\<exists>r. fmul a m = Num r \<and> 0 \<le> r)"
proof (cases a)
  case (Num x)
  show ?thesis
  proof (cases m)
    case (Num y)
    with \<open>a = Num x\<close> assms have "0 < x * y"
      by simp
    then show ?thesis
      using binary64_pos_cases [of "x * y"] by (simp add: fmul_def rnd_def Num \<open>a = Num x\<close>)
  qed (use assms Num in \<open>simp_all add: fmul_def rnd_def less_number_def\<close>)
next
  case Infinity
  with assms show ?thesis
    by (cases m) (simp_all add: fmul_def rnd_def less_number_def)
qed (use assms in \<open>simp_all add: less_number_def\<close>)

lemma levels:
  assumes "binary64 e = Num e" and "0 < e" and "d = Infinity \<or> (\<exists>r. d = Num r \<and> 0 \<le> r)"
  shows "Num e \<le> fadd (Num e) d" and "fsub (Num e) d \<le> Num e"
    and "Num (ulp e) \<le> d \<Longrightarrow> Num e < fadd (Num e) d"
    and "Num (ulp e) \<le> d \<Longrightarrow> fsub (Num e) d < Num e"
  using assms(3) binary64_add_ge [OF assms(1,2)] binary64_sub_le [OF assms(1,2)]
    binary64_add_gt [OF assms(1,2)] binary64_sub_lt [OF assms(1,2)]
  by (auto simp: fadd_def fsub_def rnd_def minus_number_def)

lemma binary64_absorbs:
  "binary64 (50000 + 1 / 2 ^ 39) = Num 50000" "binary64 (50000 - 3 / 2 ^ 41) = Num 50000"
  by (subst binary64_eval [of 15], simp_all add: power_int_minus rne_def)+

lemma binary64_dyadic:
  "binary64 (1 / 2 ^ 40) = Num (1 / 2 ^ 40)" "binary64 (1 / 2 ^ 39) = Num (1 / 2 ^ 39)"
  "binary64 (3 / 2 ^ 41) = Num (3 / 2 ^ 41)"
  using binary64_exact [of 1 12] binary64_exact [of 1 13] binary64_exact [of 3 11]
  by (simp_all add: power_int_minus)

text \<open>
  C4. The levels are meant to lie strictly on their side of the entry price for every
  positive ATR. In binary64 a distance that is small against the entry price is absorbed
  by the sum: with the entry price 50000 and the ATR \<open>2^-40\<close> the distances are
  \<open>2^-39\<close> and \<open>3 * 2^-41\<close>, less than half the spacing \<open>2^-37\<close> of the binary64
  values at 50000, and both levels equal the entry price.
\<close>

theorem calculate_tp_sl_absorbs_distance:
  "binary64 50000 = Num 50000 \<and> binary64 (1 / 2 ^ 40) = Num (1 / 2 ^ 40)
   \<and> (\<exists>rl. calculate_tp_sl DEFAULT_RISK_PHYSICS_CONFIG
          \<lparr>symbol = ''BTCUSDT'', strategy = ''MOMENTUM'', direction = LONG,
           win_probability = Num (6 / 10), expected_move_pct = Num 2, entry_price = None,
           current_price = Some (Num 50000), atr = Some (Num (1 / 2 ^ 40))\<rparr> None None = Inr rl
        \<and> entryPrice rl = Num 50000 \<and> takeProfitPrice rl = Num 50000
        \<and> stopLossPrice rl = Num 50000
        \<and> \<not> entryPrice rl < takeProfitPrice rl \<and> \<not> stopLossPrice rl < entryPrice rl)"
  using binary64_dyadic binary64_absorbs
  by (simp add: calculate_tp_sl_def nullish_def DEFAULT_RISK_PHYSICS_CONFIG_def Let_def
      fmul_def fadd_def fsub_def rnd_def minus_number_def)

text \<open>
  C4, amended. For a positive finite entry price, a positive ATR and positive multipliers
  \<open>calculate_tp_sl\<close> returns a take profit at or above and a stop loss at or below the
  entry price for LONG, and the reverse for SHORT. A level lies strictly on its side
  whenever its distance \<open>atr * multiplier\<close>, as computed, is at least one unit in the last
  place of the entry price (\<open>ulp\<close>, at most \<open>2^-52\<close> of the price).
\<close>

theorem calculate_tp_sl_levels:
  assumes "nullish (current_price s) (nullish (entry_price s) (Num 0)) = Num e"
    and "0 < e" and "binary64 e = Num e"
    and "atr s = Some a" and "Num 0 < a"
    and "nullish ctp (defaultAtrMultiplierTp cfg) = tm" and "Num 0 < tm"
    and "nullish csl (defaultAtrMultiplierSl cfg) = sm" and "Num 0 < sm"
  shows "\<exists>rl. calculate_tp_sl cfg s ctp csl = Inr rl \<and> entryPrice rl = Num e
      \<and> (direction s = LONG \<longrightarrow>
            entryPrice rl \<le> takeProfitPrice rl \<and> stopLossPrice rl \<le> entryPrice rl
          \<and> (Num (ulp e) \<le> fmul a tm \<longrightarrow> entryPrice rl < takeProfitPrice rl)
          \<and> (Num (ulp e) \<le> fmul a sm \<longrightarrow> stopLossPrice rl < entryPrice rl))
      \<and> (direction s = SHORT \<longrightarrow>
            takeProfitPrice rl \<le> entryPrice rl \<and> entryPrice rl \<le> stopLossPrice rl
          \<and> (Num (ulp e) \<le> fmul a tm \<longrightarrow> takeProfitPrice rl < entryPrice rl)
          \<and> (Num (ulp e) \<le> fmul a sm \<longrightarrow> entryPrice rl < stopLossPrice rl))"
proof -
  have a: "a \<noteq> Num 0"
    using assms(5) by (auto simp: less_number_def)
  note tp = levels [OF assms(3,2) fmul_pos [OF assms(5,7)]]
  note sl = levels [OF assms(3,2) fmul_pos [OF assms(5,9)]]
  show ?thesis
    using assms(1,2,4,6,8) a tp sl
    by (cases "direction s") (simp_all add: calculate_tp_sl_def Let_def nullish_def)
qed

lemma exponent_50000: "exponent 50000 = 15"
  by (rule exponent_eq) simp_all

theorem calculate_tp_sl_levels_witness:
  "\<exists>rl. calculate_tp_sl DEFAULT_RISK_PHYSICS_CONFIG
          \<lparr>symbol = ''BTCUSDT'', strategy = ''MOMENTUM'', direction = LONG,
           win_probability = Num (6 / 10), expected_move_pct = Num 2, entry_price = None,
           current_price = Some (Num 50000), atr = Some (Num 100)\<rparr> None None = Inr rl
        \<and> entryPrice rl = Num 50000
        \<and> entryPrice rl < takeProfitPrice rl \<and> stopLossPrice rl < entryPrice rl"
  using calculate_tp_sl_levels [of "\<lparr>symbol = ''BTCUSDT'', strategy = ''MOMENTUM'', direction = LONG,
           win_probability = Num (6 / 10), expected_move_pct = Num 2, entry_price = None,
           current_price = Some (Num 50000), atr = Some (Num 100)\<rparr>" 50000 "Num 100" None
         DEFAULT_RISK_PHYSICS_CONFIG "Num 2" None "Num (3 / 2)"]
  by (simp add: nullish_def DEFAULT_RISK_PHYSICS_CONFIG_def ulp_def exponent_50000 fmul_def rnd_def
      power_int_minus) blast

subsection \<open>Alpha Ranker\<close>

lemma kelly_score_bounds:
  assumes "kelly_score (evaluate_signal config sig ob) \<noteq> NaN"
  shows "\<exists>k. kelly_score (evaluate_signal config sig ob) = Num k \<and> 0 \<le> k \<and> k \<le> 1 / 4"
proof -
  define x where "x = fsub (win_probability sig)
      (fdiv (fsub (Num 1) (win_probability sig)) (reward_to_risk (evaluate_signal config sig ob)))"
  have k: "kelly_score (evaluate_signal config sig ob)
      = (if Num 0 < reward_to_risk (evaluate_signal config sig ob)
         then Math_max (Num 0) (Math_min (Num (25 / 100)) x) else Num 0)"
    by (simp add: evaluate_signal_def Let_def x_def)
  show ?thesis
  proof (cases "Num 0 < reward_to_risk (evaluate_signal config sig ob)")
    case True
    with assms k have "x \<noteq> NaN"
      using clamp_NaN by auto
    with True k show ?thesis
      using clamp_bounds [of x] by simp
  next
    case False
    with k show ?thesis by simp
  qed
qed

lemma score_not_NaN:
  assumes "ev \<noteq> NaN" and "0 \<le> k" and "k \<le> 1 / 4"
  shows "fadd (fmul ev (binary64 (6 / 10))) (fmul (fmul (Num k) (Num 100)) (binary64 (4 / 10))) \<noteq> NaN"
proof -
  obtain p where p: "binary64 (6 / 10) = Num p" "0 < p"
    using binary64_6_10 by blast
  obtain q where q: "binary64 (4 / 10) = Num q" "0 \<le> q" "q \<le> 1"
    using binary64_le_1 [of "4 / 10"] by auto
  obtain r where r: "binary64 (k * 100) = Num r" "0 \<le> r" "r \<le> 32"
    using binary64_le_32 [of "k * 100"] assms(2,3) by auto
  have "0 \<le> r * q" "r * q \<le> 32"
    using r(2,3) q(2,3) mult_mono [of r 32 q 1] by simp_all
  then obtain t where t: "binary64 (r * q) = Num t"
    using binary64_le_32 [of "r * q"] by auto
  have kelly: "fmul (fmul (Num k) (Num 100)) (binary64 (4 / 10)) = Num t"
    using r(1) q(1) t by (simp add: fmul_def)
  have "fmul ev (Num p) \<noteq> NaN"
    using assms(1) p(2) by (cases ev) (simp_all add: fmul_def)
  then show ?thesis
    unfolding kelly p(1) by (cases "fmul ev (Num p)") (simp_all add: fadd_def)
qed

text \<open>
  C6. \<open>evaluate_and_sort\<close> returns exactly the evaluated signals whose \<open>ev_score\<close> and
  \<open>kelly_score\<close> are at least the configured minimums and whose \<open>net_roi\<close> is above 0
  (as a multiset), in descending order of the score
  \<open>ev_score * 0.6 + kelly_score * 100 * 0.4\<close> as JavaScript computes it, and signals of
  equal score keep their input order.
\<close>

theorem evaluate_and_sort_correct:
  "let kept = filter (\<lambda>s. minEvScore config \<le> ev_score s \<and> minKellyScore config \<le> kelly_score s
                           \<and> Num 0 < net_roi s)
                (map (\<lambda>sig. evaluate_signal config sig ob) signals);
       score = (\<lambda>s. fadd (fmul (ev_score s) (binary64 (6 / 10)))
                       (fmul (fmul (kelly_score s) (Num 100)) (binary64 (4 / 10))));
       result = evaluate_and_sort config signals ob
   in mset result = mset kept
      \<and> sorted_wrt (\<lambda>a b. score b \<le> score a) result
      \<and> (\<forall>k. filter (\<lambda>s. score s = k) result = filter (\<lambda>s. score s = k) kept)"
proof -
  define score where "score = (\<lambda>s :: EvaluatedSignal. fadd (fmul (ev_score s) (binary64 (6 / 10)))
                       (fmul (fmul (kelly_score s) (Num 100)) (binary64 (4 / 10))))"
  define kept where "kept = filter (\<lambda>s. minEvScore config \<le> ev_score s
        \<and> minKellyScore config \<le> kelly_score s \<and> Num 0 < net_roi s)
      (map (\<lambda>sig. evaluate_signal config sig ob) signals)"
  let ?c = "\<lambda>a b. fsub (score b) (score a)"
  have eq: "evaluate_and_sort config signals ob = Array_sort ?c kept"
    by (simp add: evaluate_and_sort_def Let_def score_def kept_def)
  have c: "\<And>a b. Num 0 < ?c a b \<longleftrightarrow> score a < score b"
    unfolding score_def fadd_def by (rule fsub_pos_iff)
  have ok: "\<forall>y\<in>set kept. score y \<noteq> NaN"
  proof
    fix y assume "y \<in> set kept"
    then obtain sig where y: "y = evaluate_signal config sig ob"
      and "minEvScore config \<le> ev_score y" and "minKellyScore config \<le> kelly_score y"
      by (auto simp: kept_def)
    then have "ev_score y \<noteq> NaN" and "kelly_score y \<noteq> NaN"
      by (auto dest: le_not_NaN)
    moreover then obtain k where "kelly_score y = Num k" "0 \<le> k" "k \<le> 1 / 4"
      using kelly_score_bounds y by blast
    ultimately show "score y \<noteq> NaN"
      using score_not_NaN [of "ev_score y" k] by (simp add: score_def)
  qed
  have tie: "\<And>a b. Num 0 < ?c a b \<Longrightarrow> score a \<noteq> score b"
    using c lt_irrefl by metis
  have "mset (Array_sort ?c kept) = mset kept
      \<and> sorted_wrt (\<lambda>a b. score b \<le> score a) (Array_sort ?c kept)
      \<and> (\<forall>k. filter (\<lambda>s. score s = k) (Array_sort ?c kept) = filter (\<lambda>s. score s = k) kept)"
    using mset_Array_sort [of ?c kept] sorted_Array_sort [of ?c score kept, OF c ok]
      filter_Array_sort [of ?c score _ kept, OF tie]
    by blast
  then show ?thesis
    by (simp add: Let_def eq score_def kept_def)
qed

text \<open>
  An evaluation on an empty order book: the signal with win probability 0 has the EV
  score \<open>0 * 4 - 1 * 2 = -2\<close> and is dropped; the signal with win probability 0.5 has
  the EV score \<open>0.5 * 4 - 0.5 * 2 = 1\<close> and the Kelly score \<open>0.5 - 0.5 / 2 = 0.25\<close>
  and is returned.
\<close>

lemma evaluate_and_sort_example:
  "map (\<lambda>e. (symbol (signal e), ev_score e, kelly_score e, net_roi e))
     (evaluate_and_sort ranker_config
        [ranker_signal ''AAAUSDT'' (Num 0), ranker_signal ''BBBUSDT'' (Num (1 / 2))]
        \<lparr>bids = [], asks = []\<rparr>)
   = [(''BBBUSDT'', Num 1, Num (1 / 4), Num 4)]"
  using binary64_half
  by (simp add: evaluate_and_sort_def evaluate_signal_def calculate_round_trip_fees_def
      calculate_spread_penalty_def best_def ranker_config_def ranker_signal_def nullish_def Let_def
      fadd_def fsub_def fmul_def fdiv_def minus_number_def less_number_def less_eq_number_def
      Math_max_def Math_min_def Array_sort_def binary64_neg_numeral)

text \<open>
  C9. On finite inputs \<open>calculate_kelly_fraction\<close> returns a finite value between 0
  and 0.25, also for a zero or negative reward-to-risk.
\<close>

theorem calculate_kelly_fraction_bounded: "\<exists>k. calculate_kelly_fraction (Num w) (Num r) = Num k \<and> 0 \<le> k \<and> k \<le> 1 / 4"
proof (cases "r \<le> 0")
  case True
  then show ?thesis
    by (simp add: calculate_kelly_fraction_def less_eq_number_def)
next
  case False
  define a where "a = fsub (Num 1) (Num w)"
  define b where "b = fdiv a (Num r)"
  define c where "c = fsub (Num w) b"
  define h where "h = fdiv c (Num 2)"
  have "a \<noteq> NaN"
    by (simp add: a_def fsub_def minus_number_def)
  then have "b \<noteq> NaN"
    using False unfolding b_def fdiv_def by (cases a) (simp_all add: rnd_not_NaN)
  then have "c \<noteq> NaN"
    unfolding c_def fsub_def minus_number_def by (cases b) (simp_all add: rnd_not_NaN)
  then have "h \<noteq> NaN"
    unfolding h_def fdiv_def by (cases c) (simp_all add: rnd_not_NaN)
  moreover from False have "calculate_kelly_fraction (Num w) (Num r)
      = Math_max (Num 0) (Math_min (Num (25 / 100)) h)"
    by (simp add: calculate_kelly_fraction_def less_eq_number_def Let_def h_def c_def b_def a_def)
  ultimately show ?thesis
    using clamp_bounds [of h] by simp
qed

subsection \<open>Immortal Exit protocol\<close>

lemma atr_flat: "calculate_atr (replicate 15 flat_candle) 14 = Num 2"
  by (simp add: calculate_atr_def flat_candle_def eval_nat_numeral Let_def minus_number_def
      Math_max_def less_number_def)

lemma toUpper_Buy: "toUpperCase ''Buy'' = ''BUY''"
  by code_simp

lemma scenario_fetch:
  assumes "router w = scenario_router" and "exitConfig p = DEFAULT_CONFIG"
  shows "fetchOpenPositions two_positions_venue p w
         = ([scenario_position ''AAAUSDT'', scenario_position ''BBBUSDT''],
            emit (GetPositions BYBIT) False w)"
  using assms
  by (simp add: fetchOpenPositions_def getPositions_def DEFAULT_CONFIG_def scenario_router_def
      two_positions_venue_def toUpper_Buy scenario_position_def enumerate_eq_zip)

lemma scenario_reevaluate_failed:
  assumes "router w = scenario_router" and "exitConfig p = DEFAULT_CONFIG"
  shows "reevaluatePosition two_positions_venue p (scenario_position ''AAAUSDT'') w
         = (\<lparr>position = scenario_position ''AAAUSDT'', newSL = Num 0, newTP = Num 0, oldSL = None,
              oldTP = None, updated = False, error = Some ''Failed to fetch market data''\<rparr>,
            emit (GetKlines BYBIT ''AAAUSDT'') True w)"
  using assms
  by (simp add: reevaluatePosition_def fetchMarketData_def DEFAULT_CONFIG_def scenario_router_def
      two_positions_venue_def scenario_position_def or_zero_def)

lemma scenario_reevaluate_ok:
  assumes "router w = scenario_router" and "exitConfig p = DEFAULT_CONFIG"
  shows "reevaluatePosition two_positions_venue p (scenario_position ''BBBUSDT'') w
         = (\<lparr>position = scenario_position ''BBBUSDT'', newSL = Num 97, newTP = Num 104, oldSL = None,
              oldTP = None, updated = True, error = None\<rparr>,
            emit (GetKlines BYBIT ''BBBUSDT'') False w)"
proof -
  have "close (replicate 15 flat_candle ! 0) = Num 100"
    by (simp add: flat_candle_def)
  then show ?thesis
    using assms
    by (simp add: reevaluatePosition_def fetchMarketData_def DEFAULT_CONFIG_def scenario_router_def
        two_positions_venue_def scenario_position_def atr_flat calculate_tp_sl_def nullish_def
        DEFAULT_RISK_PHYSICS_CONFIG_def calculate_break_even_def level_changed_def
        fadd_def fsub_def fmul_def minus_number_def less_number_def Let_def)
qed

lemma scenario_update:
  assumes "router w = scenario_router" and "exitConfig p = DEFAULT_CONFIG"
  shows "updatePositionOnExchange two_positions_venue p (scenario_position ''BBBUSDT'')
           (Num 97) (Num 104) w
         = (None, log_event ''POSITION_TPSL_UPDATED''
                    (emit (SetTradingStop ''BBBUSDT'' (Some (Num 104)) (Some (Num 97))) False w))"
  using assms
  by (simp add: updatePositionOnExchange_def DEFAULT_CONFIG_def eval_nat_numeral updateTpSl_def
      scenario_router_def two_positions_venue_def scenario_position_def)

lemma router_emit [simp]: "router (emit e b w) = router w"
  by (simp add: emit_def)

lemma router_log_event [simp]: "router (log_event e w) = router w"
  by (simp add: log_event_def)

text \<open>
  C1. After \<open>execute\<close> returns, the store's shutdown state is complete and no longer
  shutting down, whatever the venue answers and whether or not an update failed. The call
  is one that runs the protocol (the guard of the instance is not set) or a later call on
  an instance whose run has completed.
\<close>

theorem execute_completes_shutdown:
  assumes "guard p \<Longrightarrow> shutdownComplete (shutdownState (botState w)) \<and> \<not> isShuttingDown (shutdownState (botState w))"
  shows "shutdownComplete (shutdownState (botState (snd (execute venue reason (p, w)))))
       \<and> \<not> isShuttingDown (shutdownState (botState (snd (execute venue reason (p, w)))))"
  using assms
  by (auto simp: execute_def run_protocol_def Let_def completeShutdown_def setStatus_def
      logActivity_def split: prod.splits)

lemma failed_update_is_recorded:
  "errors (shutdownState (botState (snd (execute failing_update_venue ''SIGTERM'' (fresh_protocol, scenario_world)))))
    = [''TP/SL update error: rejected'']"
proof -
  have u: "updatePositionOnExchange failing_update_venue p (scenario_position ''BBBUSDT'') (Num 97) (Num 104) w
       = (Some ''TP/SL update error: rejected'',
          emit (SetTradingStop ''BBBUSDT'' (Some (Num 104)) (Some (Num 97))) True
           (emit (Sleep (Num 1000)) False
            (emit (SetTradingStop ''BBBUSDT'' (Some (Num 104)) (Some (Num 97))) True
             (emit (Sleep (Num 1000)) False
              (emit (SetTradingStop ''BBBUSDT'' (Some (Num 104)) (Some (Num 97))) True w)))))"
    if "router w = scenario_router" and "exitConfig p = DEFAULT_CONFIG" for p w
    using that
    by (simp add: updatePositionOnExchange_def DEFAULT_CONFIG_def eval_nat_numeral updateTpSl_def
      scenario_router_def failing_update_venue_def two_positions_venue_def scenario_position_def
      message_of_def)
  have f: "fetchOpenPositions failing_update_venue = fetchOpenPositions two_positions_venue"
    by (rule ext)+ (auto simp: fetchOpenPositions_def getPositions_def failing_update_venue_def)
  have r: "reevaluatePosition failing_update_venue = reevaluatePosition two_positions_venue"
    by (rule ext)+ (auto simp: reevaluatePosition_def fetchMarketData_def failing_update_venue_def)
  show ?thesis
    by (simp add: execute_def run_protocol_def f r u scenario_fetch scenario_reevaluate_failed
      scenario_reevaluate_ok scenario_world_def sendFinalNotification_def
      logShutdown_def completeShutdown_def setStatus_def logActivity_def initiateShutdown_def
      setShutdownPositionsFetched_def addShutdownError_def fresh_store_def
      getActivePositions_def emit_def log_event_def now_def Let_def fresh_protocol_def)
qed

theorem execute_completes_shutdown_witness:
  "\<not> guard fresh_protocol
   \<and> shutdownComplete (shutdownState (botState (snd (execute failing_update_venue ''SIGTERM'' (fresh_protocol, scenario_world)))))
   \<and> \<not> isShuttingDown (shutdownState (botState (snd (execute failing_update_venue ''SIGTERM'' (fresh_protocol, scenario_world)))))
   \<and> errors (shutdownState (botState (snd (execute failing_update_venue ''SIGTERM'' (fresh_protocol, scenario_world)))))
       = [''TP/SL update error: rejected'']"
  using execute_completes_shutdown [of fresh_protocol scenario_world failing_update_venue "''SIGTERM''"]
    failed_update_is_recorded
  by (simp add: fresh_protocol_def)

text \<open>
  C2. With two open positions and a kline request that throws for the first, both
  positions are re-evaluated, but the store's error list stays empty: the failure is kept
  only in the local record that \<open>reevaluatePosition\<close> returns.
\<close>

theorem shutdown_fetch_failure_not_recorded:
  "trace (snd (execute two_positions_venue ''SIGTERM'' (fresh_protocol, scenario_world)))
     = [(GetPositions BYBIT, False), (GetKlines BYBIT ''AAAUSDT'', True),
        (GetKlines BYBIT ''BBBUSDT'', False),
        (SetTradingStop ''BBBUSDT'' (Some (Num 104)) (Some (Num 97)), False)]
   \<and> errors (shutdownState (botState (snd (execute two_positions_venue ''SIGTERM'' (fresh_protocol, scenario_world))))) = []"
  by (simp add: execute_def run_protocol_def scenario_fetch scenario_reevaluate_failed
      scenario_reevaluate_ok scenario_update scenario_world_def sendFinalNotification_def
      logShutdown_def completeShutdown_def setStatus_def logActivity_def initiateShutdown_def
      setShutdownPositionsFetched_def addShutdownPositionUpdated_def fresh_store_def
      getActivePositions_def emit_def log_event_def now_def Let_def fresh_protocol_def)




subsection \<open>Execution router\<close>

lemma trade_risk_eval:
  "calculateRiskPhysics mexc_config TradeLONG (Num 100) (Num 40) (Num 3000) (Some (Num 1)) None None
   = trade_risk"
  by (simp add: calculateRiskPhysics_def mexc_config_def trade_risk_def nullish_def Let_def
      minus_number_def less_number_def less_eq_number_def)

lemma precision_thousandth: "\<lceil>- log 10 (1 / 1000 :: real)\<rceil> = 3"
  by (rule ceiling_neg_log10) (simp_all add: powr_minus)

lemma precision_hundredth: "\<lceil>- log 10 (1 / 100 :: real)\<rceil> = 2"
  by (rule ceiling_neg_log10) (simp_all add: powr_minus)

lemma roundQty_eval: "roundQty (Num (1 / 2)) (Num (1 / 1000)) = Num (1 / 2)"
  by (simp add: roundQty_def Math_pow10_def precision_thousandth)

lemma roundPrice_eval:
  "roundPrice (Num 100) (Num (1 / 100)) = Num 100"
  "roundPrice (Num 220) (Num (1 / 100)) = Num 220"
  "roundPrice (Num 40) (Num (1 / 100)) = Num 40"
  by (simp_all add: roundPrice_def Math_pow10_def precision_hundredth)

lemma mexc_config_simps:
  "defaultExchange mexc_config = MEXC" "minCapitalRequired mexc_config = Num 15"
  by (simp_all add: mexc_config_def)

lemma trade_params_simps:
  "trade_signal trade_params = TradeLONG" "trade_symbol trade_params = ''BTCUSDT''"
  "currentPrice trade_params = Num 100" "trade_atr trade_params = Num 40"
  "walletBalance trade_params = Num 3000" "trade_leverage trade_params = Some (Num 1)"
  "riskPercent trade_params = None" "rewardRiskRatio trade_params = None"
  by (simp_all add: trade_params_def)

lemma trade_risk_simps:
  "isValid trade_risk" "rp_positionSize trade_risk = Num (1 / 2)" "takeProfit trade_risk = Num 220"
  "stopLoss trade_risk = Num 40"
  by (simp_all add: trade_risk_def)

lemma unconfigured_client_rejects:
  "executeTrade strict_venue trade_params unconfigured_world
    = (Inl (Error ''MEXC client not configured''), unconfigured_world)"
proof -
  have r: "router unconfigured_world
      = \<lparr>routerConfig = mexc_config, mexcClient = None, bybitClient = None, instrumentCache = Map.empty\<rparr>"
    by (simp add: unconfigured_world_def)
  show ?thesis
    by (simp add: executeTrade_def r trade_params_simps trade_risk_eval trade_risk_simps
        mexc_config_simps getInstrumentInfo_def DEFAULT_INSTRUMENT_def roundQty_eval
        roundPrice_eval executeMexcTrade_def less_number_def Let_def)
qed

lemma rejected_after_lookup:
  "executeTrade strict_venue trade_params mexc_world
    = (Inr (failure MEXC ''BTCUSDT'' ''BUY'' ''MARKET'' (Num (1 / 2)) ''REJECTED''
              ''Notional value below minimum'' (Some trade_risk)),
       mexc_world\<lparr>router := \<lparr>routerConfig = mexc_config,
                               mexcClient = Some [''BTCUSDT'' \<mapsto> strict_instrument],
                               bybitClient = None,
                               instrumentCache = [(MEXC, ''BTCUSDT'') \<mapsto> strict_instrument]\<rparr>,
                  trace := [(GetInstrumentsInfo MEXC ''BTCUSDT'', False)]\<rparr>)"
proof -
  have r: "router mexc_world
      = \<lparr>routerConfig = mexc_config, mexcClient = Some Map.empty, bybitClient = None, instrumentCache = Map.empty\<rparr>"
    and t: "trace mexc_world = []"
    by (simp_all add: mexc_world_def)
  have i: "tickSize strict_instrument = Num (1 / 100)" "qtyStep strict_instrument = Num (1 / 1000)"
    "minNotional strict_instrument = Num 100"
    by (simp_all add: strict_instrument_def)
  show ?thesis
    by (simp add: executeTrade_def r t i trade_params_simps trade_risk_eval trade_risk_simps
        mexc_config_simps getInstrumentInfo_def client_getInstrumentInfo_def strict_venue_def
        roundQty_eval roundPrice_eval less_number_def Let_def emit_def now_def)
qed

lemma client_lookup:
  assumes "client_getInstrumentInfo venue ex t w = (r, w1)"
  shows "routerConfig (router w1) = routerConfig (router w)
     \<and> (mexcClient (router w1) = None \<longleftrightarrow> mexcClient (router w) = None)
     \<and> (bybitClient (router w1) = None \<longleftrightarrow> bybitClient (router w) = None)
     \<and> instrumentCache (router w1) = instrumentCache (router w)
     \<and> (trace w1 = trace w \<and> \<not> isl r \<or> trace w1 = trace w @ [(GetInstrumentsInfo ex t, isl r)])"
  using assms
  by (auto simp: client_getInstrumentInfo_def effects_since_def emit_def Let_def
      split: option.splits sum.splits if_splits)

lemma router_lookup:
  assumes "getInstrumentInfo venue ex t w = (r, w1)"
  shows "routerConfig (router w1) = routerConfig (router w)
     \<and> (mexcClient (router w1) = None \<longleftrightarrow> mexcClient (router w) = None)
     \<and> (bybitClient (router w1) = None \<longleftrightarrow> bybitClient (router w) = None)
     \<and> (trace w1 = trace w \<and> \<not> isl r \<or> trace w1 = trace w @ [(GetInstrumentsInfo ex t, isl r)])"
proof (cases "instrumentCache (router w) (ex, t)")
  case (Some info)
  with assms show ?thesis
    by (auto simp: getInstrumentInfo_def effects_since_def)
next
  case None
  show ?thesis
  proof (cases "(ex = MEXC \<and> mexcClient (router w) \<noteq> None) \<or> (ex = BYBIT \<and> bybitClient (router w) \<noteq> None)")
    case False
    with None assms show ?thesis
      by (auto simp: getInstrumentInfo_def effects_since_def)
  next
    case True
    obtain r0 w0 where c: "client_getInstrumentInfo venue ex t w = (r0, w0)"
      by fastforce
    note cl = client_lookup [OF c]
    from None True c assms have "(r = Inl (projl r0) \<and> isl r0 \<or> \<not> isl r0 \<and> \<not> isl r)
        \<and> trace w1 = trace w0 \<and> routerConfig (router w1) = routerConfig (router w0)
        \<and> mexcClient (router w1) = mexcClient (router w0)
        \<and> bybitClient (router w1) = bybitClient (router w0)"
      by (auto simp: getInstrumentInfo_def split: sum.splits option.splits)
    with cl show ?thesis
      by (auto simp: effects_since_def)
  qed
qed

lemma mexc_trade:
  assumes "mexcClient (router w) \<noteq> None"
  shows "\<exists>res b e. executeMexcTrade venue params qty pr tp sl rp w = (Inr res, emit e b w)
      \<and> (b \<longrightarrow> \<not> success res \<and> result_status res = ''ERROR'')"
  using assms
  by (auto simp: executeMexcTrade_def failure_def Let_def split: sum.splits)

lemma bybit_trade:
  assumes "bybitClient (router w) \<noteq> None"
  shows "\<exists>res w1 new. executeBybitTrade venue params qty pr tp sl rp w = (Inr res, w1)
      \<and> trace w1 = trace w @ new
      \<and> ((\<exists>c\<in>set new. snd c) \<longrightarrow> \<not> success res \<and> result_status res = ''ERROR'')"
  using assms
  by (auto simp: executeBybitTrade_def failure_def emit_def Let_def split: sum.splits option.splits)

lemma mexc_world_router:
  "router mexc_world
    = \<lparr>routerConfig = mexc_config, mexcClient = Some Map.empty, bybitClient = None,
       instrumentCache = Map.empty\<rparr>"
  by (simp add: mexc_world_def)

lemma strict_instrument_simps:
  "tickSize strict_instrument = Num (1 / 100)" "qtyStep strict_instrument = Num (1 / 1000)"
  "minNotional strict_instrument = Num 100"
  by (simp_all add: strict_instrument_def)

text \<open>
  C7. As stated the claim fails twice. With no client for the default exchange a trade
  that passes every check makes \<open>executeTrade\<close> reject (the venue function is returned
  without \<open>await\<close>, past the \<open>catch\<close>). And a trade rejected by the notional floor
  has already asked the venue for the instrument.
\<close>

theorem executeTrade_throws_or_calls_venue:
  "fst (executeTrade strict_venue trade_params unconfigured_world)
     = Inl (Error ''MEXC client not configured'')
   \<and> fst (executeTrade strict_venue trade_params mexc_world)
     = Inr (failure MEXC ''BTCUSDT'' ''BUY'' ''MARKET'' (Num (1 / 2)) ''REJECTED''
              ''Notional value below minimum'' (Some trade_risk))
   \<and> trace (snd (executeTrade strict_venue trade_params mexc_world))
     = [(GetInstrumentsInfo MEXC ''BTCUSDT'', False)]"
  by (simp add: unconfigured_client_rejects rejected_after_lookup)

text \<open>
  C7, amended. When the client of the default exchange is configured, \<open>executeTrade\<close>
  returns a result. If risk validation fails the result is a rejection and no effect has
  happened. If a floor check fails the result is a rejection, the world is the one after the
  instrument lookup, and no leverage or order call has happened. If any call threw, the
  result is an error result.
\<close>

theorem executeTrade_contract:
  assumes mexc: "defaultExchange (routerConfig (router w)) = MEXC \<Longrightarrow> mexcClient (router w) \<noteq> None"
    and bybit: "defaultExchange (routerConfig (router w)) = BYBIT \<Longrightarrow> bybitClient (router w) \<noteq> None"
  shows "\<exists>res w1.
      executeTrade venue params w = (Inr res, w1)
    \<and> (\<not> isValid (risk_of w params)
         \<longrightarrow> \<not> success res \<and> result_status res = ''REJECTED'' \<and> trace w1 = trace w)
    \<and> (\<forall>info w2.
          isValid (risk_of w params)
          \<and> getInstrumentInfo venue (defaultExchange (routerConfig (router w)))
               (trade_symbol params) w = (Inr info, w2)
          \<and> (notional_value (risk_of w params) params info < minNotional info
               \<or> notional_value (risk_of w params) params info
                   < minCapitalRequired (routerConfig (router w)))
         \<longrightarrow> \<not> success res \<and> result_status res = ''REJECTED'' \<and> w1 = w2
             \<and> (\<forall>c\<in>set (effects_since w w1). \<not> order_effect (fst c)))
    \<and> ((\<exists>c\<in>set (effects_since w w1). snd c)
         \<longrightarrow> \<not> success res \<and> result_status res = ''ERROR'')"
proof (cases "isValid (risk_of w params)")
  case False
  then have "executeTrade venue params w
      = (Inr (failure (defaultExchange (routerConfig (router w))) (trade_symbol params)
                (if trade_signal params = TradeLONG \<or> trade_signal params = CLOSE_SHORT
                 then ''BUY'' else ''SELL'') ''MARKET'' (rp_positionSize (risk_of w params))
                ''REJECTED'' ''Risk validation failed'' (Some (risk_of w params))), w)"
    by (simp add: executeTrade_def risk_of_def Let_def)
  with False show ?thesis
    by (simp add: failure_def effects_since_def)
next
  case True
  let ?ex = "defaultExchange (routerConfig (router w))"
  obtain r w2 where look: "getInstrumentInfo venue ?ex (trade_symbol params) w = (r, w2)"
    by fastforce
  note rl = router_lookup [OF look]
  show ?thesis
  proof (cases r)
    case (Inl e)
    with True look have "executeTrade venue params w
      = (Inr (failure ?ex (trade_symbol params)
                (if trade_signal params = TradeLONG \<or> trade_signal params = CLOSE_SHORT
                 then ''BUY'' else ''SELL'') ''MARKET'' (Num 0) ''ERROR''
                (''Trade execution error: '' @ message_of e) None), w2)"
      by (simp add: executeTrade_def risk_of_def Let_def)
    with True Inl look show ?thesis
      by (simp add: failure_def)
  next
    case (Inr info)
    let ?n = "notional_value (risk_of w params) params info"
    from rl Inr have tr: "trace w2 = trace w \<or> trace w2 = trace w @ [(GetInstrumentsInfo ?ex (trade_symbol params), False)]"
      by auto
    then have eff: "effects_since w w2 = [] \<or> effects_since w w2 = [(GetInstrumentsInfo ?ex (trade_symbol params), False)]"
      by (auto simp: effects_since_def)
    show ?thesis
    proof (cases "?n < minNotional info \<or> ?n < minCapitalRequired (routerConfig (router w))")
      case rej: True
      with True look Inr have "\<exists>msg. executeTrade venue params w
        = (Inr (failure ?ex (trade_symbol params)
                (if trade_signal params = TradeLONG \<or> trade_signal params = CLOSE_SHORT
                 then ''BUY'' else ''SELL'') ''MARKET''
                (roundQty (rp_positionSize (risk_of w params)) (qtyStep info)) ''REJECTED''
                msg (Some (risk_of w params))), w2)"
        by (auto simp: executeTrade_def risk_of_def notional_value_def Let_def)
      with True Inr look eff show ?thesis
        by (auto simp: failure_def order_effect_def)
    next
      case ok: False
      with True look Inr have run: "executeTrade venue params w
        = (if ?ex = MEXC
           then executeMexcTrade venue params
                  (roundQty (rp_positionSize (risk_of w params)) (qtyStep info))
                  (roundPrice (currentPrice params) (tickSize info))
                  (roundPrice (takeProfit (risk_of w params)) (tickSize info))
                  (roundPrice (stopLoss (risk_of w params)) (tickSize info))
                  (risk_of w params) w2
           else executeBybitTrade venue params
                  (roundQty (rp_positionSize (risk_of w params)) (qtyStep info))
                  (roundPrice (currentPrice params) (tickSize info))
                  (roundPrice (takeProfit (risk_of w params)) (tickSize info))
                  (roundPrice (stopLoss (risk_of w params)) (tickSize info))
                  (risk_of w params) w2)"
        by (auto simp: executeTrade_def risk_of_def notional_value_def Let_def)
      have "\<exists>res w1 new. executeTrade venue params w = (Inr res, w1)
          \<and> trace w1 = trace w2 @ new
          \<and> ((\<exists>c\<in>set new. snd c) \<longrightarrow> \<not> success res \<and> result_status res = ''ERROR'')"
      proof (cases "?ex")
        case MEXC
        with mexc rl have "mexcClient (router w2) \<noteq> None"
          by simp
        from mexc_trade [OF this] MEXC run show ?thesis
          by (fastforce simp: emit_def)
      next
        case BYBIT
        with bybit rl have "bybitClient (router w2) \<noteq> None"
          by simp
        from bybit_trade [OF this] BYBIT run show ?thesis
          by fastforce
      qed
      then obtain res w1 new where res: "executeTrade venue params w = (Inr res, w1)"
        and new: "trace w1 = trace w2 @ new"
        and err: "(\<exists>c\<in>set new. snd c) \<Longrightarrow> \<not> success res \<and> result_status res = ''ERROR''"
        by blast
      from tr new have "effects_since w w1 = new
          \<or> effects_since w w1 = (GetInstrumentsInfo ?ex (trade_symbol params), False) # new"
        by (auto simp: effects_since_def)
      then have "(\<exists>c\<in>set (effects_since w w1). snd c) \<Longrightarrow> \<exists>c\<in>set new. snd c"
        by auto
      with err have "(\<exists>c\<in>set (effects_since w w1). snd c) \<Longrightarrow> \<not> success res \<and> result_status res = ''ERROR''"
        by blast
      with res True ok look Inr show ?thesis
        by auto
    qed
  qed
qed

theorem executeTrade_contract_witness:
  "mexcClient (router mexc_world) \<noteq> None
   \<and> defaultExchange (routerConfig (router mexc_world)) = MEXC
   \<and> isValid (risk_of mexc_world trade_params)
   \<and> notional_value (risk_of mexc_world trade_params) trade_params strict_instrument
       < minNotional strict_instrument
   \<and> (\<exists>res w1. executeTrade strict_venue trade_params mexc_world = (Inr res, w1)
         \<and> \<not> success res \<and> result_status res = ''REJECTED'')"
proof -
  have cfg: "mexcClient (router mexc_world) \<noteq> None"
    "defaultExchange (routerConfig (router mexc_world)) = MEXC"
    by (simp_all add: mexc_world_router mexc_config_simps)
  have risk: "risk_of mexc_world trade_params = trade_risk"
    by (simp add: risk_of_def mexc_world_router trade_params_simps trade_risk_eval)
  have low: "notional_value trade_risk trade_params strict_instrument < minNotional strict_instrument"
    by (simp add: notional_value_def trade_risk_simps trade_params_simps strict_instrument_simps
        roundQty_eval roundPrice_eval less_number_def)
  obtain w2 where look: "getInstrumentInfo strict_venue MEXC ''BTCUSDT'' mexc_world
      = (Inr strict_instrument, w2)"
    by (simp add: getInstrumentInfo_def client_getInstrumentInfo_def mexc_world_router
        strict_venue_def Let_def)
  from executeTrade_contract [of mexc_world strict_venue trade_params] cfg
  obtain res w1 where run: "executeTrade strict_venue trade_params mexc_world = (Inr res, w1)"
    and rej: "\<And>info w2.
          isValid (risk_of mexc_world trade_params)
          \<and> getInstrumentInfo strict_venue (defaultExchange (routerConfig (router mexc_world)))
               (trade_symbol trade_params) mexc_world = (Inr info, w2)
          \<and> (notional_value (risk_of mexc_world trade_params) trade_params info < minNotional info
               \<or> notional_value (risk_of mexc_world trade_params) trade_params info
                   < minCapitalRequired (routerConfig (router mexc_world)))
         \<Longrightarrow> \<not> success res \<and> result_status res = ''REJECTED''"
    by (auto simp del: not_None_eq)
  from rej [of strict_instrument w2] look low
  have "\<not> success res \<and> result_status res = ''REJECTED''"
    by (simp add: cfg risk trade_risk_simps trade_params_simps)
  with run cfg risk low show ?thesis
    by (auto simp: trade_risk_simps)
qed

end
